theory Spec2Isabelle
  imports Main
begin

section \<open>Python strings\<close>

text \<open>
  A Python \<open>str\<close> is a sequence of Unicode code points, so a cell's text is a list of
  natural numbers. A literal of the source is written \<open>py ''...''\<close>. The character classes
  (\<open>str.isspace\<close>, and further down the classes \<open>\\d\<close>, \<open>\\s\<close> and \<open>\\w\<close> of the module
  \<open>re\<close>) follow CPython: the table of white space is complete, the decimal digits and the
  word characters are those of the code points below 256.
\<close>

type_synonym pystr = "nat list"

abbreviation py :: "string \<Rightarrow> pystr" where
  "py s \<equiv> map of_char s"

datatype py_error = StopIteration | ValueError

definition py_isspace :: "nat \<Rightarrow> bool" where
  \<comment> \<open>\<open>str.isspace\<close> of one character; \<open>\\s\<close> of a \<open>str\<close> pattern tests the same set\<close>
  "py_isspace c \<longleftrightarrow>
     (9 \<le> c \<and> c \<le> 13) \<or> (28 \<le> c \<and> c \<le> 32) \<or> c = 133 \<or> c = 160 \<or> c = 5760 \<or>
     (8192 \<le> c \<and> c \<le> 8202) \<or> c = 8232 \<or> c = 8233 \<or> c = 8239 \<or> c = 8287 \<or> c = 12288"

definition py_isdigit :: "nat \<Rightarrow> bool" where
  \<comment> \<open>the class \<open>[0-9]\<close>\<close>
  "py_isdigit c \<longleftrightarrow> 48 \<le> c \<and> c \<le> 57"

definition decimal_zeros :: "nat list" where
  \<comment> \<open>the digits zero beyond ASCII of the Unicode Character Database 14.0.0 (CPython 3.11);
      the digits one to nine of a script follow its zero\<close>
  "decimal_zeros =
      [1632, 1776, 1984, 2406, 2534, 2662, 2790, 2918, 3046, 3174, 3302, 3430, 3558, 3664, 3792,
       3872, 4160, 4240, 6112, 6160, 6470, 6608, 6784, 6800, 6992, 7088, 7232, 7248, 42528,
       43216, 43264, 43472, 43504, 43600, 44016, 65296, 66720, 68912, 69734, 69872, 69942, 70096,
       70384, 70736, 70864, 71248, 71360, 71472, 71904, 72016, 72784, 73040, 73120, 92768, 92864,
       93008, 120782, 120792, 120802, 120812, 120822, 123200, 123632, 125264, 130032]"

definition py_isdecimal :: "nat \<Rightarrow> bool" where
  \<comment> \<open>\<open>str.isdecimal\<close> of one character; \<open>\\d\<close> of a \<open>str\<close> pattern tests the same set\<close>
  "py_isdecimal c \<longleftrightarrow>
     (if c < 128 then 48 \<le> c \<and> c \<le> 57 else list_ex (\<lambda>z. z \<le> c \<and> c < z + 10) decimal_zeros)"

definition digit_value :: "nat \<Rightarrow> nat" where
  \<comment> \<open>the value of a decimal digit\<close>
  "digit_value c =
     (if c < 128 then c - 48
      else case find (\<lambda>z. z \<le> c \<and> c < z + 10) decimal_zeros of None \<Rightarrow> 0 | Some z \<Rightarrow> c - z)"

fun str_nat :: "nat \<Rightarrow> pystr" where
  \<comment> \<open>\<open>str(n)\<close> of a non-negative \<open>int\<close>\<close>
  "str_nat n = (if n < 10 then [48 + n] else str_nat (n div 10) @ [48 + n mod 10])"

declare str_nat.simps [simp del]

definition py_strip :: "pystr \<Rightarrow> pystr" where
  \<comment> \<open>\<open>s.strip()\<close>\<close>
  "py_strip s = rev (dropWhile py_isspace (rev (dropWhile py_isspace s)))"

function py_split :: "pystr \<Rightarrow> pystr list" where
  \<comment> \<open>\<open>s.split()\<close>: the maximal runs of characters that are not white space\<close>
  "py_split [] = []"
| "py_split (c # cs) =
     (if py_isspace c then py_split cs
      else (c # takeWhile (\<lambda>x. \<not> py_isspace x) cs) # py_split (dropWhile (\<lambda>x. \<not> py_isspace x) cs))"
  by pat_completeness auto
termination
  by (relation "measure length") (auto simp: le_imp_less_Suc length_dropWhile_le)

fun py_join :: "pystr \<Rightarrow> pystr list \<Rightarrow> pystr" where
  \<comment> \<open>\<open>sep.join(xs)\<close>\<close>
  "py_join sep [] = []"
| "py_join sep [x] = x"
| "py_join sep (x # y # ys) = x @ sep @ py_join sep (y # ys)"

definition py_replace_char :: "nat \<Rightarrow> nat \<Rightarrow> pystr \<Rightarrow> pystr" where
  \<comment> \<open>\<open>s.replace(a, b)\<close> for one-character strings \<open>a\<close> and \<open>b\<close>\<close>
  "py_replace_char a b s = map (\<lambda>c. if c = a then b else c) s"

section \<open>Header Reconciler: \<open>read_csv_with_multiline\<close>\<close>

text \<open>
  The function is modelled on the rows that \<open>csv.reader\<close> yields, each a list of cells.
  \<open>next(reader)\<close> raises \<open>StopIteration\<close> when no row is left; the first call is inside a
  \<open>try\<close>, the second is not. A row dictionary is a map from header name to cell, the last
  of several equal names winning, as in a dict comprehension.
\<close>

definition clean_cell :: "pystr \<Rightarrow> pystr" where
  \<comment> \<open>\<open>" ".join(str(h).replace("\\r", " ").replace("\\n", " ").strip().split())\<close>\<close>
  "clean_cell h = py_join (py '' '') (py_split (py_strip (py_replace_char 10 32 (py_replace_char 13 32 h))))"

definition clean_header :: "pystr list \<Rightarrow> pystr list \<Rightarrow> pystr list" where
  \<comment> \<open>lines 50-58: a blank header cell takes the super header's label of its column\<close>
  "clean_header cleaned_super header_raw =
     map (\<lambda>(i, h). let val = clean_cell h in
            if val = [] \<and> i < length cleaned_super then cleaned_super ! i else val)
         (enumerate 0 header_raw)"

fun make_unique :: "(pystr \<rightharpoonup> nat) \<Rightarrow> pystr list \<Rightarrow> pystr list" where
  \<comment> \<open>lines 62-69, the loop body over the cells before the last three; \<open>seen\<close> is the dict\<close>
  "make_unique seen [] = []"
| "make_unique seen (h # hs) =
     (let key = (if h = [] then py ''Unnamed'' else h);
          count = (case seen key of None \<Rightarrow> 0 | Some c \<Rightarrow> c);
          val = (if count \<noteq> 0 then key @ py ''_'' @ str_nat (count + 1) else key)
      in val # make_unique (seen(key \<mapsto> count + 1)) hs)"

definition reconcile_header :: "pystr list \<Rightarrow> pystr list" where
  \<comment> \<open>lines 59-72 on \<open>cleaned_header\<close>\<close>
  "reconcile_header cleaned_header =
     (let n = length cleaned_header;
          uniq = make_unique Map.empty (take (n - 3) cleaned_header) @ drop (n - 3) cleaned_header
      in if 3 \<le> n then take (n - 3) uniq @ [py ''R1'', py ''R2'', py ''R3''] else uniq)"

definition fit_row :: "nat \<Rightarrow> pystr list \<Rightarrow> pystr list" where
  \<comment> \<open>lines 77-80: pad with empty cells or truncate to the header's length\<close>
  "fit_row n row = (if length row < n then row @ replicate (n - length row) [] else take n row)"

type_synonym row_dict = "pystr \<rightharpoonup> pystr"

definition make_row :: "pystr list \<Rightarrow> pystr list \<Rightarrow> row_dict" where
  "make_row cleaned_header row = map_of (rev (zip cleaned_header (fit_row (length cleaned_header) row)))"

fun read_csv_with_multiline ::
  "pystr list list \<Rightarrow> py_error + (pystr list \<times> pystr list \<times> row_dict list)" where
  "read_csv_with_multiline [] = Inr ([], [], [])"
| "read_csv_with_multiline [super_header_raw] = Inl StopIteration"
| "read_csv_with_multiline (super_header_raw # header_raw # data) =
     (let cleaned_super = map clean_cell super_header_raw;
          cleaned_header = reconcile_header (clean_header cleaned_super header_raw)
      in Inr (cleaned_header, cleaned_super, map (make_row cleaned_header) data))"

section \<open>Regular expressions\<close>

text \<open>
  The patterns of the program are transcribed as terms of the type \<open>rx\<close> and run by a
  backtracking matcher that returns, for a position in the text, every way the pattern can
  match there, in the order in which the module \<open>re\<close> tries them: the left branch of an
  alternative first, repetitions greedy. The first of them is the match \<open>re\<close> reports.
  A position is the text before it (reversed) and the text after it; a group's capture
  is recorded with its number.
\<close>

definition word_ranges :: "(nat \<times> nat) list" where
  \<comment> \<open>the characters beyond ASCII that \<open>str.isalnum\<close> accepts (Unicode Character Database 14.0.0),
      as closed intervals of code points\<close>
  "word_ranges =
      [(170, 170), (178, 179), (181, 181), (185, 186), (188, 190), (192, 214), (216, 246),
       (248, 705), (710, 721), (736, 740), (748, 748), (750, 750), (880, 884), (886, 887),
       (890, 893), (895, 895), (902, 902), (904, 906), (908, 908), (910, 929), (931, 1013),
       (1015, 1153), (1162, 1327), (1329, 1366), (1369, 1369), (1376, 1416), (1488, 1514),
       (1519, 1522), (1568, 1610), (1632, 1641), (1646, 1647), (1649, 1747), (1749, 1749),
       (1765, 1766), (1774, 1788), (1791, 1791), (1808, 1808), (1810, 1839), (1869, 1957),
       (1969, 1969), (1984, 2026), (2036, 2037), (2042, 2042), (2048, 2069), (2074, 2074),
       (2084, 2084), (2088, 2088), (2112, 2136), (2144, 2154), (2160, 2183), (2185, 2190),
       (2208, 2249), (2308, 2361), (2365, 2365), (2384, 2384), (2392, 2401), (2406, 2415),
       (2417, 2432), (2437, 2444), (2447, 2448), (2451, 2472), (2474, 2480), (2482, 2482),
       (2486, 2489), (2493, 2493), (2510, 2510), (2524, 2525), (2527, 2529), (2534, 2545),
       (2548, 2553), (2556, 2556), (2565, 2570), (2575, 2576), (2579, 2600), (2602, 2608),
       (2610, 2611), (2613, 2614), (2616, 2617), (2649, 2652), (2654, 2654), (2662, 2671),
       (2674, 2676), (2693, 2701), (2703, 2705), (2707, 2728), (2730, 2736), (2738, 2739),
       (2741, 2745), (2749, 2749), (2768, 2768), (2784, 2785), (2790, 2799), (2809, 2809),
       (2821, 2828), (2831, 2832), (2835, 2856), (2858, 2864), (2866, 2867), (2869, 2873),
       (2877, 2877), (2908, 2909), (2911, 2913), (2918, 2927), (2929, 2935), (2947, 2947),
       (2949, 2954), (2958, 2960), (2962, 2965), (2969, 2970), (2972, 2972), (2974, 2975),
       (2979, 2980), (2984, 2986), (2990, 3001), (3024, 3024), (3046, 3058), (3077, 3084),
       (3086, 3088), (3090, 3112), (3114, 3129), (3133, 3133), (3160, 3162), (3165, 3165),
       (3168, 3169), (3174, 3183), (3192, 3198), (3200, 3200), (3205, 3212), (3214, 3216),
       (3218, 3240), (3242, 3251), (3253, 3257), (3261, 3261), (3293, 3294), (3296, 3297),
       (3302, 3311), (3313, 3314), (3332, 3340), (3342, 3344), (3346, 3386), (3389, 3389),
       (3406, 3406), (3412, 3414), (3416, 3425), (3430, 3448), (3450, 3455), (3461, 3478),
       (3482, 3505), (3507, 3515), (3517, 3517), (3520, 3526), (3558, 3567), (3585, 3632),
       (3634, 3635), (3648, 3654), (3664, 3673), (3713, 3714), (3716, 3716), (3718, 3722),
       (3724, 3747), (3749, 3749), (3751, 3760), (3762, 3763), (3773, 3773), (3776, 3780),
       (3782, 3782), (3792, 3801), (3804, 3807), (3840, 3840), (3872, 3891), (3904, 3911),
       (3913, 3948), (3976, 3980), (4096, 4138), (4159, 4169), (4176, 4181), (4186, 4189),
       (4193, 4193), (4197, 4198), (4206, 4208), (4213, 4225), (4238, 4238), (4240, 4249),
       (4256, 4293), (4295, 4295), (4301, 4301), (4304, 4346), (4348, 4680), (4682, 4685),
       (4688, 4694), (4696, 4696), (4698, 4701), (4704, 4744), (4746, 4749), (4752, 4784),
       (4786, 4789), (4792, 4798), (4800, 4800), (4802, 4805), (4808, 4822), (4824, 4880),
       (4882, 4885), (4888, 4954), (4969, 4988), (4992, 5007), (5024, 5109), (5112, 5117),
       (5121, 5740), (5743, 5759), (5761, 5786), (5792, 5866), (5870, 5880), (5888, 5905),
       (5919, 5937), (5952, 5969), (5984, 5996), (5998, 6000), (6016, 6067), (6103, 6103),
       (6108, 6108), (6112, 6121), (6128, 6137), (6160, 6169), (6176, 6264), (6272, 6276),
       (6279, 6312), (6314, 6314), (6320, 6389), (6400, 6430), (6470, 6509), (6512, 6516),
       (6528, 6571), (6576, 6601), (6608, 6618), (6656, 6678), (6688, 6740), (6784, 6793),
       (6800, 6809), (6823, 6823), (6917, 6963), (6981, 6988), (6992, 7001), (7043, 7072),
       (7086, 7141), (7168, 7203), (7232, 7241), (7245, 7293), (7296, 7304), (7312, 7354),
       (7357, 7359), (7401, 7404), (7406, 7411), (7413, 7414), (7418, 7418), (7424, 7615),
       (7680, 7957), (7960, 7965), (7968, 8005), (8008, 8013), (8016, 8023), (8025, 8025),
       (8027, 8027), (8029, 8029), (8031, 8061), (8064, 8116), (8118, 8124), (8126, 8126),
       (8130, 8132), (8134, 8140), (8144, 8147), (8150, 8155), (8160, 8172), (8178, 8180),
       (8182, 8188), (8304, 8305), (8308, 8313), (8319, 8329), (8336, 8348), (8450, 8450),
       (8455, 8455), (8458, 8467), (8469, 8469), (8473, 8477), (8484, 8484), (8486, 8486),
       (8488, 8488), (8490, 8493), (8495, 8505), (8508, 8511), (8517, 8521), (8526, 8526),
       (8528, 8585), (9312, 9371), (9450, 9471), (10102, 10131), (11264, 11492), (11499, 11502),
       (11506, 11507), (11517, 11517), (11520, 11557), (11559, 11559), (11565, 11565),
       (11568, 11623), (11631, 11631), (11648, 11670), (11680, 11686), (11688, 11694),
       (11696, 11702), (11704, 11710), (11712, 11718), (11720, 11726), (11728, 11734),
       (11736, 11742), (11823, 11823), (12293, 12295), (12321, 12329), (12337, 12341),
       (12344, 12348), (12353, 12438), (12445, 12447), (12449, 12538), (12540, 12543),
       (12549, 12591), (12593, 12686), (12690, 12693), (12704, 12735), (12784, 12799),
       (12832, 12841), (12872, 12879), (12881, 12895), (12928, 12937), (12977, 12991),
       (13312, 19903), (19968, 42124), (42192, 42237), (42240, 42508), (42512, 42539),
       (42560, 42606), (42623, 42653), (42656, 42735), (42775, 42783), (42786, 42888),
       (42891, 42954), (42960, 42961), (42963, 42963), (42965, 42969), (42994, 43009),
       (43011, 43013), (43015, 43018), (43020, 43042), (43056, 43061), (43072, 43123),
       (43138, 43187), (43216, 43225), (43250, 43255), (43259, 43259), (43261, 43262),
       (43264, 43301), (43312, 43334), (43360, 43388), (43396, 43442), (43471, 43481),
       (43488, 43492), (43494, 43518), (43520, 43560), (43584, 43586), (43588, 43595),
       (43600, 43609), (43616, 43638), (43642, 43642), (43646, 43695), (43697, 43697),
       (43701, 43702), (43705, 43709), (43712, 43712), (43714, 43714), (43739, 43741),
       (43744, 43754), (43762, 43764), (43777, 43782), (43785, 43790), (43793, 43798),
       (43808, 43814), (43816, 43822), (43824, 43866), (43868, 43881), (43888, 44002),
       (44016, 44025), (44032, 55203), (55216, 55238), (55243, 55291), (63744, 64109),
       (64112, 64217), (64256, 64262), (64275, 64279), (64285, 64285), (64287, 64296),
       (64298, 64310), (64312, 64316), (64318, 64318), (64320, 64321), (64323, 64324),
       (64326, 64433), (64467, 64829), (64848, 64911), (64914, 64967), (65008, 65019),
       (65136, 65140), (65142, 65276), (65296, 65305), (65313, 65338), (65345, 65370),
       (65382, 65470), (65474, 65479), (65482, 65487), (65490, 65495), (65498, 65500),
       (65536, 65547), (65549, 65574), (65576, 65594), (65596, 65597), (65599, 65613),
       (65616, 65629), (65664, 65786), (65799, 65843), (65856, 65912), (65930, 65931),
       (66176, 66204), (66208, 66256), (66273, 66299), (66304, 66339), (66349, 66378),
       (66384, 66421), (66432, 66461), (66464, 66499), (66504, 66511), (66513, 66517),
       (66560, 66717), (66720, 66729), (66736, 66771), (66776, 66811), (66816, 66855),
       (66864, 66915), (66928, 66938), (66940, 66954), (66956, 66962), (66964, 66965),
       (66967, 66977), (66979, 66993), (66995, 67001), (67003, 67004), (67072, 67382),
       (67392, 67413), (67424, 67431), (67456, 67461), (67463, 67504), (67506, 67514),
       (67584, 67589), (67592, 67592), (67594, 67637), (67639, 67640), (67644, 67644),
       (67647, 67669), (67672, 67702), (67705, 67742), (67751, 67759), (67808, 67826),
       (67828, 67829), (67835, 67867), (67872, 67897), (67968, 68023), (68028, 68047),
       (68050, 68096), (68112, 68115), (68117, 68119), (68121, 68149), (68160, 68168),
       (68192, 68222), (68224, 68255), (68288, 68295), (68297, 68324), (68331, 68335),
       (68352, 68405), (68416, 68437), (68440, 68466), (68472, 68497), (68521, 68527),
       (68608, 68680), (68736, 68786), (68800, 68850), (68858, 68899), (68912, 68921),
       (69216, 69246), (69248, 69289), (69296, 69297), (69376, 69415), (69424, 69445),
       (69457, 69460), (69488, 69505), (69552, 69579), (69600, 69622), (69635, 69687),
       (69714, 69743), (69745, 69746), (69749, 69749), (69763, 69807), (69840, 69864),
       (69872, 69881), (69891, 69926), (69942, 69951), (69956, 69956), (69959, 69959),
       (69968, 70002), (70006, 70006), (70019, 70066), (70081, 70084), (70096, 70106),
       (70108, 70108), (70113, 70132), (70144, 70161), (70163, 70187), (70272, 70278),
       (70280, 70280), (70282, 70285), (70287, 70301), (70303, 70312), (70320, 70366),
       (70384, 70393), (70405, 70412), (70415, 70416), (70419, 70440), (70442, 70448),
       (70450, 70451), (70453, 70457), (70461, 70461), (70480, 70480), (70493, 70497),
       (70656, 70708), (70727, 70730), (70736, 70745), (70751, 70753), (70784, 70831),
       (70852, 70853), (70855, 70855), (70864, 70873), (71040, 71086), (71128, 71131),
       (71168, 71215), (71236, 71236), (71248, 71257), (71296, 71338), (71352, 71352),
       (71360, 71369), (71424, 71450), (71472, 71483), (71488, 71494), (71680, 71723),
       (71840, 71922), (71935, 71942), (71945, 71945), (71948, 71955), (71957, 71958),
       (71960, 71983), (71999, 71999), (72001, 72001), (72016, 72025), (72096, 72103),
       (72106, 72144), (72161, 72161), (72163, 72163), (72192, 72192), (72203, 72242),
       (72250, 72250), (72272, 72272), (72284, 72329), (72349, 72349), (72368, 72440),
       (72704, 72712), (72714, 72750), (72768, 72768), (72784, 72812), (72818, 72847),
       (72960, 72966), (72968, 72969), (72971, 73008), (73030, 73030), (73040, 73049),
       (73056, 73061), (73063, 73064), (73066, 73097), (73112, 73112), (73120, 73129),
       (73440, 73458), (73648, 73648), (73664, 73684), (73728, 74649), (74752, 74862),
       (74880, 75075), (77712, 77808), (77824, 78894), (82944, 83526), (92160, 92728),
       (92736, 92766), (92768, 92777), (92784, 92862), (92864, 92873), (92880, 92909),
       (92928, 92975), (92992, 92995), (93008, 93017), (93019, 93025), (93027, 93047),
       (93053, 93071), (93760, 93846), (93952, 94026), (94032, 94032), (94099, 94111),
       (94176, 94177), (94179, 94179), (94208, 100343), (100352, 101589), (101632, 101640),
       (110576, 110579), (110581, 110587), (110589, 110590), (110592, 110882), (110928, 110930),
       (110948, 110951), (110960, 111355), (113664, 113770), (113776, 113788), (113792, 113800),
       (113808, 113817), (119520, 119539), (119648, 119672), (119808, 119892), (119894, 119964),
       (119966, 119967), (119970, 119970), (119973, 119974), (119977, 119980), (119982, 119993),
       (119995, 119995), (119997, 120003), (120005, 120069), (120071, 120074), (120077, 120084),
       (120086, 120092), (120094, 120121), (120123, 120126), (120128, 120132), (120134, 120134),
       (120138, 120144), (120146, 120485), (120488, 120512), (120514, 120538), (120540, 120570),
       (120572, 120596), (120598, 120628), (120630, 120654), (120656, 120686), (120688, 120712),
       (120714, 120744), (120746, 120770), (120772, 120779), (120782, 120831), (122624, 122654),
       (123136, 123180), (123191, 123197), (123200, 123209), (123214, 123214), (123536, 123565),
       (123584, 123627), (123632, 123641), (124896, 124902), (124904, 124907), (124909, 124910),
       (124912, 124926), (124928, 125124), (125127, 125135), (125184, 125251), (125259, 125259),
       (125264, 125273), (126065, 126123), (126125, 126127), (126129, 126132), (126209, 126253),
       (126255, 126269), (126464, 126467), (126469, 126495), (126497, 126498), (126500, 126500),
       (126503, 126503), (126505, 126514), (126516, 126519), (126521, 126521), (126523, 126523),
       (126530, 126530), (126535, 126535), (126537, 126537), (126539, 126539), (126541, 126543),
       (126545, 126546), (126548, 126548), (126551, 126551), (126553, 126553), (126555, 126555),
       (126557, 126557), (126559, 126559), (126561, 126562), (126564, 126564), (126567, 126570),
       (126572, 126578), (126580, 126583), (126585, 126588), (126590, 126590), (126592, 126601),
       (126603, 126619), (126625, 126627), (126629, 126633), (126635, 126651), (127232, 127244),
       (130032, 130041), (131072, 173791), (173824, 177976), (177984, 178205), (178208, 183969),
       (183984, 191456), (194560, 195101), (196608, 201546)]"

definition py_isword :: "nat \<Rightarrow> bool" where
  \<comment> \<open>\<open>\\w\<close> of a \<open>str\<close> pattern: alphanumeric or the underscore\<close>
  "py_isword c \<longleftrightarrow>
     (if c < 128 then (48 \<le> c \<and> c \<le> 57) \<or> (65 \<le> c \<and> c \<le> 90) \<or> c = 95 \<or> (97 \<le> c \<and> c \<le> 122)
      else list_ex (\<lambda>(lo, hi). lo \<le> c \<and> c \<le> hi) word_ranges)"

datatype rx =
    Cls "nat \<Rightarrow> bool"
  | Eps
  | Seq rx rx
  | Alt rx rx
  | Opt rx
  | Star rx
  | WordB
  | NotBehind "nat \<Rightarrow> bool"
  | NotAhead "nat \<Rightarrow> bool"
  | Grp nat rx

type_synonym rx_state = "pystr \<times> pystr \<times> (nat \<times> pystr) list"

definition word_at :: "pystr \<Rightarrow> bool" where
  "word_at s = (case s of [] \<Rightarrow> False | c # _ \<Rightarrow> py_isword c)"

function rx_match :: "rx \<Rightarrow> rx_state \<Rightarrow> rx_state list" where
  "rx_match (Cls p) (b, a, g) = (case a of [] \<Rightarrow> [] | c # cs \<Rightarrow> if p c then [(c # b, cs, g)] else [])"
| "rx_match Eps st = [st]"
| "rx_match (Seq r1 r2) st = concat (map (rx_match r2) (rx_match r1 st))"
| "rx_match (Alt r1 r2) st = rx_match r1 st @ rx_match r2 st"
| "rx_match (Opt r) st = rx_match r st @ [st]"
| "rx_match (Star r) st =
     concat (map (rx_match (Star r))
               (filter (\<lambda>st'. length (fst (snd st')) < length (fst (snd st))) (rx_match r st))) @ [st]"
| "rx_match WordB (b, a, g) = (if word_at b = word_at a then [] else [(b, a, g)])"
| "rx_match (NotBehind p) (b, a, g) = (case b of [] \<Rightarrow> [(b, a, g)] | c # _ \<Rightarrow> if p c then [] else [(b, a, g)])"
| "rx_match (NotAhead p) (b, a, g) = (case a of [] \<Rightarrow> [(b, a, g)] | c # _ \<Rightarrow> if p c then [] else [(b, a, g)])"
| "rx_match (Grp i r) (b, a, g) =
     map (\<lambda>(b', a', g'). (b', a', (i, take (length a - length a') a) # g')) (rx_match r (b, a, g))"
  by pat_completeness auto
termination
  by (relation "measures [\<lambda>(r, st). size r, \<lambda>(r, st). length (fst (snd st))]") auto

lemmas rx_match_Star = rx_match.simps(6)

declare rx_match_Star [simp del]

fun seqs :: "rx list \<Rightarrow> rx" where
  "seqs [] = Eps"
| "seqs [r] = r"
| "seqs (r # rs) = Seq r (seqs rs)"

fun rep :: "nat \<Rightarrow> rx \<Rightarrow> rx" where
  \<comment> \<open>\<open>r{n}\<close>\<close>
  "rep 0 r = Eps"
| "rep (Suc n) r = Seq r (rep n r)"

fun upto_rep :: "nat \<Rightarrow> rx \<Rightarrow> rx" where
  \<comment> \<open>\<open>r{0,n}\<close>, greedy\<close>
  "upto_rep 0 r = Eps"
| "upto_rep (Suc n) r = Opt (Seq r (upto_rep n r))"

definition lit :: "pystr \<Rightarrow> rx" where
  "lit s = seqs (map (\<lambda>c. Cls (\<lambda>x. x = c)) s)"

definition ci_char :: "nat \<Rightarrow> nat \<Rightarrow> bool" where
  \<comment> \<open>a character of a pattern compiled with \<open>re.IGNORECASE\<close>, written in lower case: itself,
      for a letter its capital, and the characters that \<open>re\<close> folds to it (dotted and dotless i,
      long s, Kelvin sign)\<close>
  "ci_char c x \<longleftrightarrow> x = c \<or> (97 \<le> c \<and> c \<le> 122 \<and> x + 32 = c) \<or> (c = 105 \<and> (x = 304 \<or> x = 305)) \<or>
     (c = 115 \<and> x = 383) \<or> (c = 107 \<and> x = 8490)"

definition lit_i :: "pystr \<Rightarrow> rx" where
  "lit_i s = seqs (map (\<lambda>c. Cls (ci_char c)) s)"

datatype rx_item = Text nat | Match pystr "(nat \<times> pystr) list"

function rx_scan :: "rx \<Rightarrow> pystr \<Rightarrow> pystr \<Rightarrow> rx_item list" where
  \<comment> \<open>the non-overlapping matches from left to right, as \<open>finditer\<close> and \<open>sub\<close> find them, with
      the characters between them\<close>
  "rx_scan r b a =
     (case rx_match r (b, a, []) of
        [] \<Rightarrow> (case a of [] \<Rightarrow> [] | c # cs \<Rightarrow> Text c # rx_scan r (c # b) cs)
      | (b', a', g) # _ \<Rightarrow>
          if length a' < length a then Match (take (length a - length a') a) g # rx_scan r b' a'
          else Match [] g # (case a of [] \<Rightarrow> [] | c # cs \<Rightarrow> Text c # rx_scan r (c # b) cs))"
  by pat_completeness auto
termination
  by (relation "measure (\<lambda>(r, b, a). length a)") auto

declare rx_scan.simps [simp del]

definition finditer :: "rx \<Rightarrow> pystr \<Rightarrow> (pystr \<times> (nat \<times> pystr) list) list" where
  "finditer r s = concat (map (\<lambda>it. case it of Text c \<Rightarrow> [] | Match t g \<Rightarrow> [(t, g)]) (rx_scan r [] s))"

definition findall :: "rx \<Rightarrow> pystr \<Rightarrow> pystr list" where
  \<comment> \<open>\<open>findall\<close> of a pattern without groups: the matched texts\<close>
  "findall r s = map fst (finditer r s)"

definition re_search :: "rx \<Rightarrow> pystr \<Rightarrow> bool" where
  \<comment> \<open>the truth value of \<open>pattern.search(s)\<close>\<close>
  "re_search r s = (finditer r s \<noteq> [])"

definition group :: "nat \<Rightarrow> (nat \<times> pystr) list \<Rightarrow> pystr" where
  \<comment> \<open>\<open>m.group(i)\<close> of a group that took part in the match\<close>
  "group i g = (case map_of g i of None \<Rightarrow> [] | Some t \<Rightarrow> t)"

definition re_sub :: "rx \<Rightarrow> ((nat \<times> pystr) list \<Rightarrow> pystr) \<Rightarrow> pystr \<Rightarrow> pystr" where
  \<comment> \<open>\<open>re.sub(pattern, repl, s)\<close>; the replacement is computed from the groups\<close>
  "re_sub r repl s = concat (map (\<lambda>it. case it of Text c \<Rightarrow> [c] | Match t g \<Rightarrow> repl g) (rx_scan r [] s))"

definition re_sub_class :: "(nat \<Rightarrow> bool) \<Rightarrow> pystr \<Rightarrow> pystr \<Rightarrow> pystr" where
  \<comment> \<open>\<open>re.sub\<close> of a pattern that is one character class\<close>
  "re_sub_class p repl s = concat (map (\<lambda>c. if p c then repl else [c]) s)"

section \<open>Text Normalizer and Contact Block Extractor\<close>

definition normalize_phone :: "pystr \<Rightarrow> pystr" where
  \<comment> \<open>\<open>re.sub(r"[\\s\\-]", "", raw)\<close>, then \<open>re.sub(r"[^\\d\\+]", "", s)\<close>\<close>
  "normalize_phone raw =
     re_sub_class (\<lambda>c. \<not> (py_isdecimal c \<or> c = 43)) [] (re_sub_class (\<lambda>c. py_isspace c \<or> c = 45) [] raw)"

definition phone_body :: "nat \<Rightarrow> bool" where
  \<comment> \<open>the class \<open>[\\d\\s\\-]\<close>\<close>
  "phone_body c \<longleftrightarrow> py_isdecimal c \<or> py_isspace c \<or> c = 45"

definition RE_PHONE :: rx where
  \<comment> \<open>\<open>\\+?\\d[\\d\\s\\-]{7,}\\d\<close>\<close>
  "RE_PHONE = Seq (seqs [Opt (Cls (\<lambda>c. c = 43)), Cls py_isdecimal, rep 7 (Cls phone_body), Star (Cls phone_body)])
                  (Cls py_isdecimal)"

definition RE_WHATS :: rx where
  \<comment> \<open>\<open>whats\\s*app|whatsapp\<close>, IGNORECASE\<close>
  "RE_WHATS = Alt (seqs [lit_i (py ''whats''), Star (Cls py_isspace), lit_i (py ''app'')]) (lit_i (py ''whatsapp''))"

definition RE_ALT :: rx where
  \<comment> \<open>\<open>altern|alt\<close>, IGNORECASE\<close>
  "RE_ALT = Alt (lit_i (py ''altern'')) (lit_i (py ''alt''))"

definition RE_PRIMARY_HINT :: rx where
  \<comment> \<open>\<open>kontak|bel|call|primary\<close>, IGNORECASE\<close>
  "RE_PRIMARY_HINT =
     Alt (lit_i (py ''kontak'')) (Alt (lit_i (py ''bel'')) (Alt (lit_i (py ''call'')) (lit_i (py ''primary''))))"

definition py_islinebreak :: "nat \<Rightarrow> bool" where
  \<comment> \<open>the line boundaries of \<open>str.splitlines\<close>, apart from the pair \<open>\\r\\n\<close>\<close>
  "py_islinebreak c \<longleftrightarrow> (10 \<le> c \<and> c \<le> 13) \<or> (28 \<le> c \<and> c \<le> 30) \<or> c = 133 \<or> c = 8232 \<or> c = 8233"

fun splitlines_from :: "pystr \<Rightarrow> pystr \<Rightarrow> pystr list" where
  \<comment> \<open>the second argument is the line read so far, reversed\<close>
  "splitlines_from cur [] = (if cur = [] then [] else [rev cur])"
| "splitlines_from cur [c] = (if py_islinebreak c then [rev cur] else [rev (c # cur)])"
| "splitlines_from cur (c # d # cs) =
     (if c = 13 \<and> d = 10 then rev cur # splitlines_from [] cs
      else if py_islinebreak c then rev cur # splitlines_from [] (d # cs)
      else splitlines_from (c # cur) (d # cs))"

definition splitlines :: "pystr \<Rightarrow> pystr list" where
  "splitlines s = splitlines_from [] s"

definition truthy :: "pystr option \<Rightarrow> bool" where
  \<comment> \<open>the truth value of an optional string: neither \<open>None\<close> nor empty\<close>
  "truthy x = (case x of None \<Rightarrow> False | Some s \<Rightarrow> s \<noteq> [])"

type_synonym slots = "pystr option \<times> pystr option \<times> pystr option"

definition contact_lines :: "pystr \<Rightarrow> pystr list" where
  \<comment> \<open>\<open>[ln.strip() for ln in str(text).splitlines() if ln.strip()]\<close>\<close>
  "contact_lines text = filter (\<lambda>ln. ln \<noteq> []) (map py_strip (splitlines text))"

definition label_line :: "slots \<Rightarrow> pystr \<Rightarrow> slots" where
  \<comment> \<open>lines 103-118, the body of the first loop\<close>
  "label_line s ln =
     (case s of (prim, wa, alt) \<Rightarrow>
        (case findall RE_PHONE ln of
           [] \<Rightarrow> s
         | ph # _ \<Rightarrow>
             let num = normalize_phone ph in
             if re_search RE_WHATS ln then (if truthy wa then s else (prim, Some num, alt))
             else if re_search RE_ALT ln then (if truthy alt then s else (prim, wa, Some num))
             else if re_search RE_PRIMARY_HINT ln then (if truthy prim then s else (Some num, wa, alt))
             else s))"

definition first_pass :: "pystr list \<Rightarrow> slots" where
  "first_pass lns = foldl label_line (None, None, None) lns"

definition remaining_numbers :: "slots \<Rightarrow> pystr list \<Rightarrow> pystr list" where
  \<comment> \<open>lines 121-126\<close>
  "remaining_numbers s lns =
     (case s of (prim, wa, alt) \<Rightarrow>
        filter (\<lambda>n. Some n \<notin> set (filter truthy [prim, wa, alt]))
               (concat (map (\<lambda>ln. map normalize_phone (findall RE_PHONE ln)) lns)))"

definition fill_slot :: "slots \<Rightarrow> pystr \<Rightarrow> slots" where
  \<comment> \<open>lines 128-133, the body of the last loop\<close>
  "fill_slot s n =
     (case s of (prim, wa, alt) \<Rightarrow>
        if \<not> truthy prim then (Some n, wa, alt)
        else if \<not> truthy wa then (prim, Some n, alt)
        else if \<not> truthy alt then (prim, wa, Some n)
        else s)"

definition parse_contact_field :: "pystr \<Rightarrow> slots" where
  "parse_contact_field text =
     (if text = [] then (None, None, None)
      else let lns = contact_lines text; s = first_pass lns
           in foldl fill_slot s (remaining_numbers s lns))"

definition slot_list :: "slots \<Rightarrow> pystr option list" where
  \<comment> \<open>the slots in the order primary, whatsapp, alternate\<close>
  "slot_list s = (case s of (prim, wa, alt) \<Rightarrow> [prim, wa, alt])"

definition slot_ok :: "pystr option \<Rightarrow> bool" where
  \<comment> \<open>a slot that is absent or holds a non-empty string\<close>
  "slot_ok x = (case x of None \<Rightarrow> True | Some s \<Rightarrow> s \<noteq> [])"

definition labelled_slots :: "pystr \<Rightarrow> slots" where
  \<comment> \<open>the slots after the first loop of \<open>parse_contact_field\<close>\<close>
  "labelled_slots text = first_pass (contact_lines text)"

definition second_pass_numbers :: "pystr \<Rightarrow> pystr list" where
  \<comment> \<open>the list \<open>remaining\<close> of \<open>parse_contact_field\<close>\<close>
  "second_pass_numbers text = remaining_numbers (labelled_slots text) (contact_lines text)"

section \<open>Comment Splitter\<close>

definition rx_digit :: rx where
  "rx_digit = Cls py_isdecimal"

definition rx_slash :: rx where
  "rx_slash = Cls (\<lambda>c. c = 47)"

definition RE_TRAILING_SLASH :: rx where
  \<comment> \<open>\<open>\\b(\\d{1,2}/\\d{2})/\\b\<close> of line 177\<close>
  "RE_TRAILING_SLASH =
     seqs [WordB, Grp 1 (seqs [rx_digit, upto_rep 1 rx_digit, rx_slash, rep 2 rx_digit]), rx_slash, WordB]"

definition RE_DDMM :: rx where
  \<comment> \<open>\<open>\\b(\\d{1,2})/(\\d{2})(?:/(\\d{2,4}))?\\b\<close>\<close>
  "RE_DDMM =
     seqs [WordB, Grp 1 (Seq rx_digit (upto_rep 1 rx_digit)), rx_slash, Grp 2 (rep 2 rx_digit),
           Opt (Seq rx_slash (Grp 3 (Seq (rep 2 rx_digit) (upto_rep 2 rx_digit)))), WordB]"

definition RE_HHMM :: rx where
  \<comment> \<open>\<open>(?<!\\d)(\\d{4})(?!\\d)\<close>\<close>
  "RE_HHMM = seqs [NotBehind py_isdecimal, Grp 1 (rep 4 rx_digit), NotAhead py_isdecimal]"

definition token_rx :: "pystr \<Rightarrow> rx" where
  \<comment> \<open>\<open>rf"\\b{re.escape(token)}\\b"\<close>\<close>
  "token_rx token = seqs [WordB, lit token, WordB]"

definition plus_rx :: "(nat \<Rightarrow> bool) \<Rightarrow> rx" where
  \<comment> \<open>\<open>[...]+\<close> of a character class\<close>
  "plus_rx p = Seq (Cls p) (Star (Cls p))"

definition add_token :: "pystr list \<Rightarrow> pystr \<Rightarrow> pystr list" where
  \<comment> \<open>\<open>if token not in times: times.append(token)\<close>\<close>
  "add_token toks token = (if token \<in> set toks then toks else toks @ [token])"

definition collect_tokens :: "pystr \<Rightarrow> pystr list" where
  \<comment> \<open>lines 178-188 on the normalised text: the dates first, then the four-digit times\<close>
  "collect_tokens t =
     foldl add_token
       (foldl add_token [] (map (\<lambda>(m, g). group 1 g @ py ''/'' @ group 2 g) (finditer RE_DDMM t)))
       (map (\<lambda>(m, g). group 1 g) (finditer RE_HHMM t))"

definition remove_token :: "pystr \<Rightarrow> pystr \<Rightarrow> pystr" where
  "remove_token cleaned token = re_sub (token_rx token) (\<lambda>g. py '' '') cleaned"

definition split_comments :: "pystr \<Rightarrow> pystr \<times> pystr" where
  \<comment> \<open>\<open>toks\<close> is the list \<open>times\<close> of the source\<close>
  "split_comments text =
     (if text = [] then ([], [])
      else let t = re_sub RE_TRAILING_SLASH (\<lambda>g. group 1 g) text;
               toks = collect_tokens t;
               cleaned = foldl remove_token t toks;
               cleaned = re_sub (plus_rx (\<lambda>c. c = 13 \<or> c = 10)) (\<lambda>g. py '' '') cleaned;
               cleaned = py_strip (re_sub (plus_rx py_isspace) (\<lambda>g. py '' '') cleaned)
           in (py_join (py '' '') toks, cleaned))"

section \<open>National Identity Parser\<close>

text \<open>
  \<open>int(s)\<close> is applied to strings that \<open>str.isdigit\<close> or the class \<open>[0-9]\<close> has accepted. On a
  string of decimal digits, of whatever script, it returns the number; on a string with
  another character that \<open>str.isdigit\<close> accepts (a superscript digit, say) it raises
  \<open>ValueError\<close>. \<open>date.today()\<close> is a parameter, a triple of year, month and day.
\<close>

definition py_int :: "pystr \<Rightarrow> py_error + nat" where
  "py_int s = (if s \<noteq> [] \<and> list_all py_isdecimal s then Inr (foldl (\<lambda>n c. 10 * n + digit_value c) 0 s)
               else Inl ValueError)"

definition other_digit_ranges :: "(nat \<times> nat) list" where
  \<comment> \<open>the characters that \<open>str.isdigit\<close> accepts and \<open>str.isdecimal\<close> does not (superscripts,
      subscripts, circled digits and the like), as closed intervals of code points\<close>
  "other_digit_ranges =
      [(178, 179), (185, 185), (4969, 4977), (6618, 6618), (8304, 8304), (8308, 8313),
       (8320, 8329), (9312, 9320), (9332, 9340), (9352, 9360), (9450, 9450), (9461, 9469),
       (9471, 9471), (10102, 10110), (10112, 10120), (10122, 10130), (68160, 68163),
       (69216, 69224), (69714, 69722), (127232, 127242)]"

definition py_str_isdigit :: "pystr \<Rightarrow> bool" where
  \<comment> \<open>\<open>s.isdigit()\<close>\<close>
  "py_str_isdigit s \<longleftrightarrow>
     s \<noteq> [] \<and> list_all (\<lambda>c. py_isdecimal c \<or> list_ex (\<lambda>(lo, hi). lo \<le> c \<and> c \<le> hi) other_digit_ranges) s"

definition luhn_sa_id_ok :: "pystr \<Rightarrow> py_error + bool" where
  \<comment> \<open>\<open>_luhn_sa_id_ok\<close>\<close>
  "luhn_sa_id_ok digits =
     (if length digits = 13 \<and> py_str_isdigit digits then
        (case py_int [digits ! 0] of Inl e \<Rightarrow> Inl e | Inr d0 \<Rightarrow>
         case py_int [digits ! 2] of Inl e \<Rightarrow> Inl e | Inr d2 \<Rightarrow>
         case py_int [digits ! 4] of Inl e \<Rightarrow> Inl e | Inr d4 \<Rightarrow>
         case py_int [digits ! 6] of Inl e \<Rightarrow> Inl e | Inr d6 \<Rightarrow>
         case py_int [digits ! 8] of Inl e \<Rightarrow> Inl e | Inr d8 \<Rightarrow>
         case py_int [digits ! 10] of Inl e \<Rightarrow> Inl e | Inr d10 \<Rightarrow>
         case py_int [digits ! 1, digits ! 3, digits ! 5, digits ! 7, digits ! 9, digits ! 11] of
           Inl e \<Rightarrow> Inl e
         | Inr even_concat \<Rightarrow>
             let a = d0 + d2 + d4 + d6 + d8 + d10;
                 b_num = even_concat * 2;
                 b = sum_list (map (\<lambda>ch. ch - 48) (str_nat b_num));
                 c = a + b;
                 d = (10 - c mod 10) mod 10
             in (case py_int [digits ! 12] of Inl e \<Rightarrow> Inl e | Inr check \<Rightarrow> Inr (d = check)))
      else Inr False)"

type_synonym date = "nat \<times> nat \<times> nat"

definition is_leap :: "nat \<Rightarrow> bool" where
  "is_leap y = (if y mod 400 = 0 then True else if y mod 100 = 0 then False else y mod 4 = 0)"

definition days_in_month :: "nat \<Rightarrow> nat \<Rightarrow> nat" where
  "days_in_month y m =
     (if m = 2 then (if is_leap y then 29 else 28)
      else if m = 4 \<or> m = 6 \<or> m = 9 \<or> m = 11 then 30 else 31)"

definition py_date :: "nat \<Rightarrow> nat \<Rightarrow> nat \<Rightarrow> py_error + date" where
  \<comment> \<open>the constructor \<open>date(year, month, day)\<close>\<close>
  "py_date y m d =
     (if 1 \<le> y \<and> y \<le> 9999 \<and> 1 \<le> m \<and> m \<le> 12 \<and> 1 \<le> d \<and> d \<le> days_in_month y m
      then Inr (y, m, d) else Inl ValueError)"

definition age_on :: "date \<Rightarrow> date \<Rightarrow> int" where
  \<comment> \<open>\<open>today.year - dob.year - ((today.month, today.day) < (dob.month, dob.day))\<close>\<close>
  "age_on today dob =
     (case today of (ty, tm, td) \<Rightarrow> case dob of (y, m, d) \<Rightarrow>
        int ty - int y - (if tm < m \<or> (tm = m \<and> td < d) then 1 else 0))"

definition try_century :: "date \<Rightarrow> pystr \<Rightarrow> pystr \<Rightarrow> pystr \<Rightarrow> nat \<Rightarrow> (date \<times> int) option" where
  \<comment> \<open>every exception of the body is caught and gives \<open>None\<close>\<close>
  "try_century today yy mm dd century =
     (case py_int yy of Inl e \<Rightarrow> None | Inr y \<Rightarrow>
      case py_int mm of Inl e \<Rightarrow> None | Inr m \<Rightarrow>
      case py_int dd of Inl e \<Rightarrow> None | Inr d \<Rightarrow>
      case py_date (century + y) m d of Inl e \<Rightarrow> None
      | Inr dob \<Rightarrow> let age = age_on today dob in
                    if 0 \<le> age \<and> age \<le> 120 then Some (dob, age) else None)"

definition zfill :: "nat \<Rightarrow> pystr \<Rightarrow> pystr" where
  "zfill n s = replicate (n - length s) 48 @ s"

definition isoformat :: "date \<Rightarrow> pystr" where
  "isoformat dob = (case dob of (y, m, d) \<Rightarrow>
     zfill 4 (str_nat y) @ py ''-'' @ zfill 2 (str_nat m) @ py ''-'' @ zfill 2 (str_nat d))"

type_synonym id_facts = "pystr \<times> pystr \<times> pystr \<times> bool \<times> pystr"

definition parse_sa_id_fields :: "date \<Rightarrow> pystr \<Rightarrow> py_error + id_facts" where
  "parse_sa_id_fields today id_value =
     (if id_value = [] then Inr ([], [], [], False, py ''empty'')
      else let digits = re_sub_class (\<lambda>c. \<not> py_isdigit c) [] id_value in
        if length digits \<noteq> 13 then Inr ([], [], [], False, py ''length'')
        else let yy = take 2 digits; mm = take 2 (drop 2 digits); dd = take 2 (drop 4 digits);
                 ssss = take 4 (drop 6 digits);
                 dob_age_1900 = try_century today yy mm dd 1900;
                 dob_age_2000 = try_century today yy mm dd 2000
          in if dob_age_1900 = None \<and> dob_age_2000 = None then Inr ([], [], [], False, py ''invalid_date'')
             else let chosen =
                        (case dob_age_2000 of
                           None \<Rightarrow> dob_age_1900
                         | Some x \<Rightarrow> (case dob_age_1900 of
                                        None \<Rightarrow> dob_age_2000
                                      | Some (dob1, age1) \<Rightarrow> if 100 < age1 then dob_age_2000 else dob_age_1900))
               in (case luhn_sa_id_ok digits of
                     Inl e \<Rightarrow> Inl e
                   | Inr ok \<Rightarrow>
                       if \<not> ok then Inr ([], [], [], False, py ''checksum'')
                       else let gender = (case py_int ssss of
                                            Inl e \<Rightarrow> []
                                          | Inr gender_num \<Rightarrow> if 5000 \<le> gender_num then py ''Male'' else py ''Female'')
                            in (case chosen of
                                  None \<Rightarrow> Inr ([], [], [], False, py ''invalid_date'')
                                | Some (dob, age) \<Rightarrow> Inr (isoformat dob, str_nat (nat age), gender, True, []))))"

section \<open>Identifier Assigner\<close>

text \<open>
  \<open>unicodedata.normalize('NFKD', s)\<close> and \<open>unicodedata.combining(ch)\<close> belong to the Unicode
  data base of the Python library; they are parameters of the model (\<open>nfkd\<close> and
  \<open>combining\<close>), and nothing is assumed of them. The counter registry \<open>unique_counts\<close> is a
  map that \<open>build_student_id\<close> returns updated.
\<close>

definition is_ascii_letter :: "nat \<Rightarrow> bool" where
  \<comment> \<open>the class \<open>[A-Za-z]\<close>\<close>
  "is_ascii_letter c \<longleftrightarrow> (65 \<le> c \<and> c \<le> 90) \<or> (97 \<le> c \<and> c \<le> 122)"

definition ascii_lower :: "nat \<Rightarrow> nat" where
  \<comment> \<open>\<open>str.lower\<close> on a letter of \<open>[A-Za-z]\<close>\<close>
  "ascii_lower c = (if 65 \<le> c \<and> c \<le> 90 then c + 32 else c)"

definition slug_letters_two :: "(pystr \<Rightarrow> pystr) \<Rightarrow> (nat \<Rightarrow> nat) \<Rightarrow> pystr \<Rightarrow> pystr" where
  "slug_letters_two nfkd combining s =
     (if s = [] then []
      else let s_norm = nfkd s;
               s_ascii = filter (\<lambda>ch. combining ch = 0) s_norm;
               letters = re_sub_class (\<lambda>c. \<not> is_ascii_letter c) [] s_ascii
           in map ascii_lower (take 2 letters))"

definition str_int :: "int \<Rightarrow> pystr" where
  \<comment> \<open>\<open>str(n)\<close> of an \<open>int\<close>\<close>
  "str_int n = (if n < 0 then 45 # str_nat (nat (- n)) else str_nat (nat n))"

definition id_base :: "(pystr \<Rightarrow> pystr) \<Rightarrow> (nat \<Rightarrow> nat) \<Rightarrow> pystr \<Rightarrow> pystr \<Rightarrow> int \<Rightarrow> nat \<Rightarrow> pystr" where
  \<comment> \<open>lines 309-313: the base key of a row\<close>
  "id_base nfkd combining name surname year row_index =
     (let n2 = slug_letters_two nfkd combining name;
          s2 = slug_letters_two nfkd combining surname
      in if n2 = [] \<and> s2 = [] then py ''unk'' @ str_int year @ py ''r'' @ str_nat (row_index + 1)
         else n2 @ s2 @ str_int year)"

definition count_suffix :: "pystr \<Rightarrow> nat \<Rightarrow> pystr" where
  \<comment> \<open>lines 317-320: the identifier of the base and the count found in the registry\<close>
  "count_suffix base cnt = (if cnt = 0 then base else base @ str_nat (cnt + 1))"

definition build_student_id ::
  "(pystr \<Rightarrow> pystr) \<Rightarrow> (nat \<Rightarrow> nat) \<Rightarrow> pystr \<Rightarrow> pystr \<Rightarrow> int \<Rightarrow> (pystr \<rightharpoonup> nat) \<Rightarrow> nat
     \<Rightarrow> pystr \<times> (pystr \<rightharpoonup> nat)" where
  "build_student_id nfkd combining name surname year unique_counts row_index =
     (let base = id_base nfkd combining name surname year row_index;
          cnt = (case unique_counts base of None \<Rightarrow> 0 | Some c \<Rightarrow> c)
      in (count_suffix base cnt, unique_counts(base \<mapsto> cnt + 1)))"

fun assign_ids ::
  "(pystr \<Rightarrow> pystr) \<Rightarrow> (nat \<Rightarrow> nat) \<Rightarrow> int \<Rightarrow> (pystr \<rightharpoonup> nat) \<Rightarrow> nat \<Rightarrow> (pystr \<times> pystr) list
     \<Rightarrow> pystr list" where
  \<comment> \<open>the loop of \<open>main\<close> over the rows, as far as the identifiers go: the registry is shared,
      the ordinal counts from the start of the run\<close>
  "assign_ids nfkd combining year unique_counts idx [] = []"
| "assign_ids nfkd combining year unique_counts idx ((name, surname) # rows) =
     (case build_student_id nfkd combining name surname year unique_counts idx of
        (student_id, unique_counts') \<Rightarrow>
          student_id # assign_ids nfkd combining year unique_counts' (idx + 1) rows)"

definition student_ids :: "(pystr \<Rightarrow> pystr) \<Rightarrow> (nat \<Rightarrow> nat) \<Rightarrow> int \<Rightarrow> (pystr \<times> pystr) list \<Rightarrow> pystr list" where
  \<comment> \<open>one run: the registry starts empty (line 507), the ordinals at 0\<close>
  "student_ids nfkd combining year rows = assign_ids nfkd combining year Map.empty 0 rows"
text \<open>Auxiliary notions for the proof of uniqueness: the bases of the rows of a run, and each
  base with the count that the registry holds when its row is reached.\<close>

definition is_lower_letter :: "nat \<Rightarrow> bool" where
  "is_lower_letter c \<longleftrightarrow> 97 \<le> c \<and> c \<le> 122"

definition row_bases ::
  "(pystr \<Rightarrow> pystr) \<Rightarrow> (nat \<Rightarrow> nat) \<Rightarrow> int \<Rightarrow> nat \<Rightarrow> (pystr \<times> pystr) list \<Rightarrow> pystr list" where
  "row_bases nfkd combining year idx rows =
     map (\<lambda>(i, (name, surname)). id_base nfkd combining name surname year i) (enumerate idx rows)"

fun count_pairs :: "(pystr \<rightharpoonup> nat) \<Rightarrow> pystr list \<Rightarrow> (pystr \<times> nat) list" where
  "count_pairs counts [] = []"
| "count_pairs counts (b # bs) =
     (let cnt = (case counts b of None \<Rightarrow> 0 | Some c \<Rightarrow> c)
      in (b, cnt) # count_pairs (counts(b \<mapsto> cnt + 1)) bs)"

definition id_suffix :: "nat \<Rightarrow> pystr" where
  \<comment> \<open>what \<open>build_student_id\<close> appends to a base found \<open>c\<close> times before\<close>
  "id_suffix c = (if c = 0 then [] else str_nat (c + 1))"

section \<open>Parent/Guardian Block Extractor\<close>

definition py_lower :: "pystr \<Rightarrow> pystr" where
  \<comment> \<open>\<open>s.lower()\<close> of a string of Latin-1 characters\<close>
  "py_lower s = map (\<lambda>c. if (65 \<le> c \<and> c \<le> 90) \<or> (192 \<le> c \<and> c \<le> 214) \<or> (216 \<le> c \<and> c \<le> 222)
                        then c + 32 else c) s"

definition py_upper :: "pystr \<Rightarrow> pystr" where
  \<comment> \<open>\<open>s.upper()\<close> of a string of Latin-1 characters; the sharp s becomes \<open>SS\<close>, the micro sign
      and the y with diaeresis leave Latin-1\<close>
  "py_upper s = concat (map (\<lambda>c.
       if (97 \<le> c \<and> c \<le> 122) \<or> (224 \<le> c \<and> c \<le> 246) \<or> (248 \<le> c \<and> c \<le> 254) then [c - 32]
       else if c = 223 then [83, 83] else if c = 181 then [924] else if c = 255 then [376] else [c]) s)"

fun py_contains :: "pystr \<Rightarrow> pystr \<Rightarrow> bool" where
  \<comment> \<open>\<open>sub in s\<close>\<close>
  "py_contains sub [] = (sub = [])"
| "py_contains sub (c # cs) = (if take (length sub) (c # cs) = sub then True else py_contains sub cs)"

definition search_group1 :: "rx \<Rightarrow> pystr \<Rightarrow> pystr option" where
  \<comment> \<open>\<open>m = pattern.search(t)\<close> and, when there is a match, \<open>m.group(1)\<close>\<close>
  "search_group1 r t = (case finditer r t of [] \<Rightarrow> None | (m, g) # _ \<Rightarrow> Some (group 1 g))"

definition rx_any :: rx where
  \<comment> \<open>the dot: any character but the line feed\<close>
  "rx_any = Cls (\<lambda>c. c \<noteq> 10)"

definition rx_spaces :: rx where
  \<comment> \<open>\<open>\\s*\<close>\<close>
  "rx_spaces = Star (Cls py_isspace)"

definition RE_PARENT_NAME :: rx where
  \<comment> \<open>\<open>Ouer/Voog\\s*se\\s*volle\\s*naam\\s*(.*)\<close>, IGNORECASE\<close>
  "RE_PARENT_NAME =
     seqs [lit_i (py ''ouer/voog''), rx_spaces, lit_i (py ''se''), rx_spaces, lit_i (py ''volle''), rx_spaces,
           lit_i (py ''naam''), rx_spaces, Grp 1 (Star rx_any)]"

definition RE_PARENT_SURNAME_OF :: rx where
  \<comment> \<open>\<open>Ouer/Voog\\s*van\\s*(.*)\<close>, IGNORECASE\<close>
  "RE_PARENT_SURNAME_OF = seqs [lit_i (py ''ouer/voog''), rx_spaces, lit_i (py ''van''), rx_spaces, Grp 1 (Star rx_any)]"

definition RE_PARENT_CONTACT :: rx where
  \<comment> \<open>\<open>Kontak\\s*nr\\s*([\\+\\d][\\d\\s\\-]+)\<close>, IGNORECASE\<close>
  "RE_PARENT_CONTACT =
     seqs [lit_i (py ''kontak''), rx_spaces, lit_i (py ''nr''), rx_spaces,
           Grp 1 (Seq (Cls (\<lambda>c. c = 43 \<or> py_isdecimal c)) (plus_rx phone_body))]"

definition wanted_value :: "pystr option \<Rightarrow> pystr option" where
  \<comment> \<open>\<open>val = m.group(1).strip()\<close> when it passes \<open>val and val.upper() != "NA"\<close>\<close>
  "wanted_value m =
     (case m of None \<Rightarrow> None
      | Some v \<Rightarrow> let val = py_strip v in
                  if val = [] then None else if py_upper val = py ''NA'' then None else Some val)"

definition parse_parent_details :: "pystr \<Rightarrow> pystr option \<times> pystr option" where
  "parse_parent_details text =
     (if text = [] then (None, None)
      else let name = wanted_value (search_group1 RE_PARENT_NAME text);
               name = (case wanted_value (search_group1 RE_PARENT_SURNAME_OF text) of
                         None \<Rightarrow> name
                       | Some val \<Rightarrow>
                           if truthy name
                           then (if py_contains val (case name of None \<Rightarrow> [] | Some n \<Rightarrow> n) then name
                                 else Some ((case name of None \<Rightarrow> [] | Some n \<Rightarrow> n) @ py '' '' @ val))
                           else Some val);
               contact = (case search_group1 RE_PARENT_CONTACT text of
                            None \<Rightarrow> None
                          | Some g1 \<Rightarrow> Some (normalize_phone g1));
               contact = (if truthy contact then contact
                          else (case findall RE_PHONE text of [] \<Rightarrow> contact | ph # _ \<Rightarrow> Some (normalize_phone ph)));
               name = (if truthy name
                       then Some (py_join (py '' '') (py_split (case name of None \<Rightarrow> [] | Some n \<Rightarrow> n)))
                       else name)
           in (name, contact))"

section \<open>Column Mapper and Record Builder\<close>

definition search_digits :: "pystr \<Rightarrow> pystr option" where
  \<comment> \<open>\<open>re.search(r"\\d+", s)\<close> and its \<open>group(0)\<close>: the first maximal run of digits\<close>
  "search_digits s =
     (case dropWhile (\<lambda>c. \<not> py_isdecimal c) s of [] \<Rightarrow> None | d # ds \<Rightarrow> Some (takeWhile py_isdecimal (d # ds)))"

definition stars_to_number :: "pystr \<Rightarrow> pystr" where
  \<comment> \<open>the black star is U+2605\<close>
  "stars_to_number val =
     (if val = [] then []
      else case search_digits val of
             Some m \<Rightarrow> m
           | None \<Rightarrow>
               let count = count_list val 9733 in
               if 0 < count then str_nat count
               else if py_upper (py_strip val) \<in> {py ''N/A'', py ''#N/A'', py ''NA''} then []
               else [])"

text \<open>
  \<open>main\<close> is modelled from the rows that \<open>csv.reader\<close> yields. The cohort year is the value of
  \<open>year\<close> after line 337; the files written at the end are the three lists of records, in
  the order of their rows. An output record is the list of its fields, as the dict literal of
  the source writes them. An exception of \<open>read_csv_with_multiline\<close> is caught (exit code 4);
  an exception in the loop over the rows would leave \<open>main\<close>.
\<close>

type_synonym out_row = "(string \<times> pystr) list"

definition dget :: "row_dict \<Rightarrow> pystr option \<Rightarrow> pystr" where
  \<comment> \<open>\<open>d.get(col, "") if col else ""\<close>\<close>
  "dget d col =
     (case col of None \<Rightarrow> []
      | Some k \<Rightarrow> if k = [] then [] else (case d k of None \<Rightarrow> [] | Some v \<Rightarrow> v))"

definition dget_key :: "row_dict \<Rightarrow> pystr \<Rightarrow> pystr" where
  \<comment> \<open>\<open>d.get(key, "")\<close>\<close>
  "dget_key d k = (case d k of None \<Rightarrow> [] | Some v \<Rightarrow> v)"

definition col_or :: "pystr option \<Rightarrow> pystr option \<Rightarrow> pystr option" where
  \<comment> \<open>\<open>a or b\<close> on optional strings\<close>
  "col_or a b = (if truthy a then a else b)"

definition str_or :: "pystr \<Rightarrow> pystr \<Rightarrow> pystr" where
  \<comment> \<open>\<open>a or b\<close> on strings\<close>
  "str_or a b = (if a \<noteq> [] then a else b)"

definition opt_str :: "pystr option \<Rightarrow> pystr" where
  \<comment> \<open>\<open>x or ""\<close>\<close>
  "opt_str x = (case x of None \<Rightarrow> [] | Some s \<Rightarrow> s)"

definition get_col :: "pystr list \<Rightarrow> pystr \<Rightarrow> pystr option" where
  \<comment> \<open>lines 344-354; \<open>col\<close> is the dict of the lower-cased headers, the last of equal keys winning\<close>
  "get_col headers name =
     (let key = py_lower name in
      case map_of (rev (map (\<lambda>h. (py_lower h, h)) headers)) key of
        Some h \<Rightarrow> Some h
      | None \<Rightarrow> find (\<lambda>h. h \<noteq> [] \<and> py_contains key (py_lower h)) headers)"

definition group_slice_text :: "pystr list \<Rightarrow> pystr list \<Rightarrow> row_dict \<Rightarrow> pystr \<Rightarrow> pystr" where
  \<comment> \<open>lines 414-431\<close>
  "group_slice_text headers super_headers d group_name =
     (let idxs = (if group_name = [] then []
                  else filter (\<lambda>i. super_headers ! i = group_name) [0..<length super_headers]);
          keys = filter (\<lambda>key. key \<notin> {py ''R1'', py ''R2'', py ''R3''})
                   (map (\<lambda>i. headers ! i) (filter (\<lambda>i. i < length headers) idxs));
          vals = map (dget_key d) keys
      in py_join [10] (filter (\<lambda>v. v \<noteq> [] \<and> py_upper v \<noteq> py ''NA'' \<and> v \<noteq> py ''-'') vals))"

definition dash_none :: "pystr \<Rightarrow> pystr" where
  \<comment> \<open>\<open>x.replace("-", "None") if x == "-" else x\<close>\<close>
  "dash_none x = (if x = py ''-'' then py ''None'' else x)"

definition placeholder_col :: "pystr list \<Rightarrow> pystr \<Rightarrow> pystr option" where
  \<comment> \<open>\<open>"R1" if "R1" in headers else None\<close>\<close>
  "placeholder_col headers r = (if r \<in> set headers then Some r else None)"

definition id_value_of :: "pystr list \<Rightarrow> row_dict \<Rightarrow> pystr" where
  \<comment> \<open>lines 356 and 511\<close>
  "id_value_of headers d =
     py_strip (dget d (col_or (get_col headers (py ''ID Number''))
                        (col_or (get_col headers (py ''ID_Number'')) (get_col headers (py ''ID No'')))))"

definition t1_row :: "date \<Rightarrow> pystr list \<Rightarrow> pystr list \<Rightarrow> row_dict \<Rightarrow> pystr \<Rightarrow> pystr \<Rightarrow> py_error + out_row" where
  \<comment> \<open>lines 520-554\<close>
  "t1_row today headers super_headers d student_id id_val =
     (let cell = (\<lambda>name. dget d (get_col headers (py name)));
          contact_col = col_or (get_col headers (py ''Contact #''))
                          (col_or (get_col headers (py ''Contact#'')) (get_col headers (py ''Contact'')));
          comments_col = get_col headers (py ''Comments'')
      in case parse_contact_field (dget d contact_col) of (prim, wa, alt) \<Rightarrow>
         case parse_parent_details (cell ''Parent Details'') of (p_name, p_contact) \<Rightarrow>
         case split_comments (if truthy comments_col then dget d comments_col
                              else group_slice_text headers super_headers d (py ''Comments'')) of (c_time, c_text) \<Rightarrow>
         case parse_sa_id_fields today id_val of
           Inl e \<Rightarrow> Inl e
         | Inr (dob_iso, age_str, gender, valid_id, invalid_reason) \<Rightarrow>
             Inr [(''Student_ID'', student_id),
                  (''ID_Number'', id_val),
                  (''Name'', cell ''Name''),
                  (''Surname'', cell ''Surname''),
                  (''DOB (from SA ID)'', dob_iso),
                  (''Age (from SA ID)'', age_str),
                  (''Gender (from SA ID)'', gender),
                  (''Address'', cell ''Address''),
                  (''Primary Contact'', opt_str prim),
                  (''WhatsApp'', opt_str wa),
                  (''Alternative'', opt_str alt),
                  (''Parent/Guardian Name'', opt_str p_name),
                  (''Parent/Guardian Contact'', opt_str p_contact),
                  (''Applicant Details'', cell ''Applicant Details''),
                  (''Family Details'', cell ''Family Details''),
                  (''ID Document'', cell ''ID''),
                  (''Bank Account'', cell ''Bank Account''),
                  (''SARS Number'', dash_none (cell ''SARS Number'')),
                  (''Learners / Licence'', dash_none (cell ''Learners / Licence'')),
                  (''Comment_Text'', c_text),
                  (''Photo'', cell ''Photo'')])"

definition t2_row :: "pystr list \<Rightarrow> pystr list \<Rightarrow> row_dict \<Rightarrow> pystr \<Rightarrow> pystr \<Rightarrow> out_row" where
  \<comment> \<open>lines 387-398 and 556-582\<close>
  "t2_row headers super_headers d student_id id_val =
     (let cell = (\<lambda>name. dget d (get_col headers (py name)));
          grp = (\<lambda>name. group_slice_text headers super_headers d (py name));
          academic_details_1_col = col_or (get_col headers (py ''Unnamed'')) (get_col headers (py ''Unnamed_2''));
          academic_details_2_col = (if academic_details_1_col = get_col headers (py ''Unnamed'')
                                    then get_col headers (py ''Unnamed_2'') else get_col headers (py ''Unnamed''));
          wr_summary = str_or (cell ''School WR rating roundup'') (cell ''School WR rating'');
          wr_summary = (if wr_summary = [] then grp ''Work Readiness Criteria'' else wr_summary)
      in [(''Student_ID'', student_id),
          (''ID_Number'', id_val),
          (''Career Options/Study Details'',
             str_or (cell ''Career Options'') (str_or (grp ''Study Details'') (grp ''Career Options''))),
          (''Academic Grouping'', cell ''Academic Grouping''),
          (''Academic Details 1'', dget d academic_details_1_col),
          (''Academic Details 2'', dget d academic_details_2_col),
          (''Support'', grp ''Support''),
          (''Additional Support'', grp ''Additional Support''),
          (''CV'', cell ''CV''),
          (''Study Application'', cell ''Study Application''),
          (''W4AL course'', cell ''W4AL course''),
          (''Skills'', cell ''Skills''),
          (''Work Readiness Criteria'', wr_summary),
          (''Pathways Recommendation'', cell ''Pathways Recommendation''),
          (''YearBeyond Recommendation'', cell ''YearBeyond Recommendation''),
          (''Absent from School'', cell ''Absent from School''),
          (''Absentee rating'', cell ''Absentee rating''),
          (''School WR rating'', cell ''School WR rating''),
          (''School WR rating roundup'', cell ''School WR rating roundup'')])"

definition t3_row :: "pystr list \<Rightarrow> row_dict \<Rightarrow> pystr \<Rightarrow> pystr \<Rightarrow> out_row" where
  \<comment> \<open>lines 602-619\<close>
  "t3_row headers d student_id id_val =
     (let cell = (\<lambda>name. dget d (get_col headers (py name)))
      in [(''Student_ID'', student_id),
          (''ID_Number'', id_val),
          (''Intro Session attended'', cell ''Intro Session attended''),
          (''Info session attended'', cell ''Info session attended''),
          (''Info Form received'', cell ''Info Form received''),
          (''Info Form returned'', cell ''Info Form returned''),
          (''Mentor session attended'', cell ''Mentor session attended''),
          (''Visits to Office'', cell ''Visits to Office''),
          (''Communication WhatsApp'', cell ''Communication WhatsApp''),
          (''Communication Facebook'', cell ''Communication Facebook''),
          (''#responses'', cell ''#responses''),
          (''ro'', stars_to_number (dget_key d (py ''ro''))),
          (''Datapoints'', dget_key d (py ''Datapoints'')),
          (''R1'', dget d (placeholder_col headers (py ''R1''))),
          (''R2'', dget d (placeholder_col headers (py ''R2''))),
          (''R3'', dget d (placeholder_col headers (py ''R3'')))])"

fun main_loop ::
  "(pystr \<Rightarrow> pystr) \<Rightarrow> (nat \<Rightarrow> nat) \<Rightarrow> date \<Rightarrow> int \<Rightarrow> pystr list \<Rightarrow> pystr list \<Rightarrow> (pystr \<rightharpoonup> nat) \<Rightarrow> nat
     \<Rightarrow> row_dict list \<Rightarrow> py_error + (out_row \<times> out_row \<times> out_row) list" where
  \<comment> \<open>the loop of lines 509-619; \<open>id_counts\<close> is the registry, \<open>idx\<close> the ordinal of the row\<close>
  "main_loop nfkd combining today year headers super_headers id_counts idx [] = Inr []"
| "main_loop nfkd combining today year headers super_headers id_counts idx (d # ds) =
     (let id_val = id_value_of headers d in
      case build_student_id nfkd combining (dget d (get_col headers (py ''Name'')))
             (dget d (get_col headers (py ''Surname''))) year id_counts idx of
        (student_id, id_counts') \<Rightarrow>
          (case t1_row today headers super_headers d student_id id_val of
             Inl e \<Rightarrow> Inl e
           | Inr r1 \<Rightarrow>
               (case main_loop nfkd combining today year headers super_headers id_counts' (idx + 1) ds of
                  Inl e \<Rightarrow> Inl e
                | Inr rest \<Rightarrow>
                    Inr ((r1, t2_row headers super_headers d student_id id_val,
                          t3_row headers d student_id id_val) # rest))))"

type_synonym tables = "out_row list \<times> out_row list \<times> out_row list"

definition main ::
  "(pystr \<Rightarrow> pystr) \<Rightarrow> (nat \<Rightarrow> nat) \<Rightarrow> date \<Rightarrow> int \<Rightarrow> pystr list list \<Rightarrow> py_error + (nat \<times> tables option)" where
  \<comment> \<open>the exit code and the three tables written, if any\<close>
  "main nfkd combining today year csv_rows =
     (case read_csv_with_multiline csv_rows of
        Inl e \<Rightarrow> Inr (4, None)
      | Inr (headers, super_headers, rows) \<Rightarrow>
          if rows = [] then Inr (0, None)
          else (case main_loop nfkd combining today year headers super_headers Map.empty 0 rows of
                  Inl e \<Rightarrow> Inl e
                | Inr recs \<Rightarrow> Inr (0, Some (map fst recs, map (\<lambda>r. fst (snd r)) recs, map (\<lambda>r. snd (snd r)) recs))))"

definition field :: "string \<Rightarrow> out_row \<Rightarrow> pystr option" where
  \<comment> \<open>the value of a field of an output record\<close>
  "field name r = map_of r name"

section \<open>Results on the Header Reconciler\<close>

lemmas header_eval =
  reconcile_header_def clean_header_def clean_cell_def py_strip_def py_replace_char_def
  py_isspace_def enumerate_eq_zip str_nat.simps Let_def

text \<open>
  Claim C4 (names before the three placeholder columns are unique). The loop of lines 62-69
  records in \<open>seen\<close> the original name only, never the suffixed name it writes. With the
  detail header \<open>A, A, A_2, X, Y, Z\<close> the second \<open>A\<close> becomes \<open>A_2\<close> and the third cell, whose
  own name \<open>A_2\<close> has not been seen, stays \<open>A_2\<close>: the reconciled header holds \<open>A_2\<close> twice
  among the columns before \<open>R1, R2, R3\<close>.
\<close>

theorem read_csv_header_names_collide:
  "read_csv_with_multiline
     [[py ''G'', py ''G'', py ''G'', py ''G'', py ''G'', py ''G''],
      [py ''A'', py ''A'', py ''A_2'', py ''X'', py ''Y'', py ''Z'']]
   = Inr ([py ''A'', py ''A_2'', py ''A_2'', py ''R1'', py ''R2'', py ''R3''],
          [py ''G'', py ''G'', py ''G'', py ''G'', py ''G'', py ''G''], [])"
  by (simp add: header_eval)

text \<open>
  Claim C5 (fewer than two rows give an empty plan and no error). With no row at all the
  first \<open>next(reader)\<close> is caught and the empty plan is returned; with exactly one row the
  second \<open>next(reader)\<close> of line 41, outside the \<open>try\<close>, raises \<open>StopIteration\<close>.
\<close>

theorem read_csv_single_row_raises:
  "read_csv_with_multiline [] = Inr ([], [], []) \<and>
   read_csv_with_multiline [[py ''Name'', py ''Surname'', py ''ID Number'']] = Inl StopIteration"
  by simp

section \<open>Results on the Text Normalizer and the Contact Block Extractor\<close>

lemma rep_numeral: "rep (numeral k) r = Seq r (rep (pred_numeral k) r)"
  by (simp add: numeral_eq_Suc)

lemma upto_rep_numeral: "upto_rep (numeral k) r = Opt (Seq r (upto_rep (pred_numeral k) r))"
  by (simp add: numeral_eq_Suc)

lemmas rx_eval =
  rx_match_Star rx_scan.simps findall_def finditer_def re_search_def re_sub_def re_sub_class_def group_def
  py_isdigit_def py_isdecimal_def py_isspace_def py_isword_def word_at_def
  rep_numeral upto_rep_numeral lit_def lit_i_def ci_char_def

lemmas contact_eval =
  parse_contact_field_def contact_lines_def splitlines_def py_islinebreak_def py_strip_def
  first_pass_def label_line_def remaining_numbers_def fill_slot_def truthy_def normalize_phone_def
  RE_PHONE_def phone_body_def RE_WHATS_def RE_ALT_def RE_PRIMARY_HINT_def Let_def


text \<open>
  Claim C9 (three populated slots hold pairwise distinct numbers). As the claim states it,
  this fails: the second pass only leaves out the numbers that the first pass assigned, so an
  unlabelled number written on three lines fills all three slots.
\<close>

theorem parse_contact_field_repeated_number:
  "parse_contact_field (py ''082123456'' @ [10] @ py ''082123456'' @ [10] @ py ''082123456'')
   = (Some (py ''082123456''), Some (py ''082123456''), Some (py ''082123456''))"
  by (simp add: contact_eval rx_eval)

text \<open>A match consumes a piece of the text after the position and leaves the rest in place.\<close>

lemma rx_match_text:
  "(b', a', g') \<in> set (rx_match r (b, a, g)) \<Longrightarrow> \<exists>m. b' = rev m @ b \<and> a = m @ a'"
proof (induction r "(b, a, g)" arbitrary: b a g b' a' g' rule: rx_match.induct)
  case (1 p b a g)
  then show ?case by (auto split: list.splits if_splits)
next
  case (2 b a g)
  then show ?case by simp
next
  case (3 r1 r2 b a g)
  from "3.prems" obtain b1 a1 g1 where
    m1: "(b1, a1, g1) \<in> set (rx_match r1 (b, a, g))" and m2: "(b', a', g') \<in> set (rx_match r2 (b1, a1, g1))"
    by auto
  from "3.hyps"(1)[OF m1] obtain m where m: "b1 = rev m @ b" "a = m @ a1" by blast
  from "3.hyps"(2)[OF m1 m2] obtain n where n: "b' = rev n @ b1" "a1 = n @ a'" by blast
  show ?case by (rule exI[of _ "m @ n"]) (simp add: m n)
next
  case (4 r1 r2 b a g)
  then show ?case by auto
next
  case (5 r b a g)
  then show ?case by auto
next
  case (6 r b a g)
  show ?case
  proof (cases "(b', a', g') = (b, a, g)")
    case True
    then show ?thesis by simp
  next
    case False
    have eq: "rx_match (Star r) (b, a, g) = concat (map (rx_match (Star r))
               (filter (\<lambda>st'. length (fst (snd st')) < length (fst (snd (b, a, g)))) (rx_match r (b, a, g)))) @ [(b, a, g)]"
      by (rule rx_match_Star)
    from "6.prems" False have "(b', a', g') \<in> set (concat (map (rx_match (Star r))
               (filter (\<lambda>st'. length (fst (snd st')) < length (fst (snd (b, a, g)))) (rx_match r (b, a, g)))))"
      unfolding eq by auto
    then obtain b1 a1 g1 where
      m1: "(b1, a1, g1) \<in> set (rx_match r (b, a, g))" and lt: "length a1 < length a"
      and m2: "(b', a', g') \<in> set (rx_match (Star r) (b1, a1, g1))"
      by auto
    from "6.hyps"(1)[OF m1] obtain m where m: "b1 = rev m @ b" "a = m @ a1" by blast
    have "(b1, a1, g1) \<in> set (filter (\<lambda>st'. length (fst (snd st')) < length (fst (snd (b, a, g)))) (rx_match r (b, a, g)))"
      using m1 lt by simp
    from "6.hyps"(2)[OF this m2] obtain n where n: "b' = rev n @ b1" "a1 = n @ a'" by blast
    show ?thesis by (rule exI[of _ "m @ n"]) (simp add: m n)
  qed
next
  case (7 b a g)
  then show ?case by (auto split: if_splits)
next
  case (8 p b a g)
  then show ?case by (auto split: list.splits if_splits)
next
  case (9 p b a g)
  then show ?case by (auto split: list.splits if_splits)
next
  case (10 i r b a g)
  then show ?case by auto
qed

text \<open>What holds of every match at a position holds of every match that a scan reports.\<close>

lemma rx_scan_matches:
  "Match t g \<in> set (rx_scan r b a) \<Longrightarrow>
   (\<And>b a b' a' g'. (b', a', g') \<in> set (rx_match r (b, a, [])) \<Longrightarrow> P (take (length a - length a') a)) \<Longrightarrow>
   P t"
proof (induction r b a rule: rx_scan.induct)
  case (1 r b a)
  note P = "1.prems"(2)
  show ?case
  proof (cases "rx_match r (b, a, [])")
    case Nil
    then have "rx_scan r b a = (case a of [] \<Rightarrow> [] | c # cs \<Rightarrow> Text c # rx_scan r (c # b) cs)"
      by (simp add: rx_scan.simps[of r b a])
    with "1.prems"(1) obtain c cs where a: "a = c # cs" and "Match t g \<in> set (rx_scan r (c # b) cs)"
      by (auto split: list.splits)
    then show ?thesis using "1.IH"(1)[OF Nil a _ P] by simp
  next
    case (Cons x xs)
    obtain b' a' g' where x: "x = (b', a', g')" by (cases x)
    have mem: "(b', a', g') \<in> set (rx_match r (b, a, []))" using Cons x by simp
    show ?thesis
    proof (cases "length a' < length a")
      case True
      from "1.prems"(1) Cons x True
      have "t = take (length a - length a') a \<or> Match t g \<in> set (rx_scan r b' a')"
        by (auto simp: rx_scan.simps[of r b a])
      then show ?thesis
        using P[OF mem] "1.IH"(2)[OF Cons x[symmetric] refl True _ P] by auto
    next
      case False
      from Cons x False
      have "rx_scan r b a = Match [] g' # (case a of [] \<Rightarrow> [] | c # cs \<Rightarrow> Text c # rx_scan r (c # b) cs)"
        by (simp add: rx_scan.simps[of r b a])
      with "1.prems"(1)
      have "t = [] \<or> (\<exists>c cs. a = c # cs \<and> Match t g \<in> set (rx_scan r (c # b) cs))"
        by (auto split: list.splits)
      moreover have "P []" using P[OF mem] False by simp
      ultimately show ?thesis
        using "1.IH"(3)[OF Cons x[symmetric] refl False _ _ P] by auto
    qed
  qed
qed

lemma re_sub_class_Nil: "re_sub_class p [] s = filter (\<lambda>c. \<not> p c) s"
  by (induction s) (simp_all add: re_sub_class_def)

text \<open>The classes of the phone patterns: a decimal digit is neither white space nor a sign.\<close>

lemma isdigit_isdecimal: "py_isdigit c \<Longrightarrow> py_isdecimal c"
  by (simp add: py_isdigit_def py_isdecimal_def)

lemma isspace_bounds:
  "py_isspace c \<Longrightarrow> c < 1632 \<or> (4250 \<le> c \<and> c < 6112) \<or> (7258 \<le> c \<and> c < 42528)"
  by (auto simp: py_isspace_def)

lemma isdecimal_bounds:
  "py_isdecimal c \<Longrightarrow>
   (48 \<le> c \<and> c \<le> 57) \<or> (1632 \<le> c \<and> c < 4250) \<or> (6112 \<le> c \<and> c < 7258) \<or> 42528 \<le> c"
  by (simp add: py_isdecimal_def decimal_zeros_def split: if_splits) arith

lemma isdecimal_not_space: "py_isdecimal c \<Longrightarrow> \<not> py_isspace c"
proof
  assume d: "py_isdecimal c" and s: "py_isspace c"
  from s have "c \<notin> {48..57}" by (auto simp: py_isspace_def)
  with isdecimal_bounds[OF d] isspace_bounds[OF s] show False by auto
qed

lemma isdecimal_not_sign: "py_isdecimal c \<Longrightarrow> c \<noteq> 43 \<and> c \<noteq> 45"
  using isdecimal_bounds[of c] by auto

lemma isspace_not_plus: "py_isspace c \<Longrightarrow> c \<noteq> 43"
  by (auto simp: py_isspace_def)

lemma normalize_phone_filter:
  "normalize_phone raw = filter (\<lambda>c. py_isdecimal c \<or> c = 43) raw"
  unfolding normalize_phone_def re_sub_class_Nil filter_filter
  by (rule filter_cong[OF refl]) (auto dest: isdecimal_not_space isdecimal_not_sign isspace_not_plus)

lemma normalize_phone_digit:
  "c \<in> set t \<Longrightarrow> py_isdecimal c \<Longrightarrow> c \<in> set (normalize_phone t)"
  by (simp add: normalize_phone_filter)

lemma phone_match_digit:
  assumes "(b', a', g') \<in> set (rx_match RE_PHONE (b, a, g))"
  shows "\<exists>c \<in> set (take (length a - length a') a). py_isdecimal c"
proof -
  from assms obtain b1 a1 g1 X where
    m1: "(b1, a1, g1) \<in> set (rx_match X (b, a, g))"
    and m2: "(b', a', g') \<in> set (rx_match (Cls py_isdecimal) (b1, a1, g1))"
    unfolding RE_PHONE_def by (auto simp del: seqs.simps)
  from m2 obtain c where c: "a1 = c # a'" "py_isdecimal c"
    by (auto split: list.splits if_splits)
  from rx_match_text[OF m1] obtain m where "a = m @ a1" by blast
  with c have "take (length a - length a') a = m @ [c]" by simp
  with c show ?thesis by auto
qed

lemma findall_phone_digit:
  assumes "t \<in> set (findall RE_PHONE ln)"
  shows "normalize_phone t \<noteq> []"
proof -
  from assms obtain g where "Match t g \<in> set (rx_scan RE_PHONE [] ln)"
    by (auto simp: findall_def finditer_def split: rx_item.splits)
  then have "\<exists>c \<in> set t. py_isdecimal c"
    by (rule rx_scan_matches[where P = "\<lambda>t. \<exists>c \<in> set t. py_isdecimal c"]) (rule phone_match_digit)
  then show ?thesis using normalize_phone_digit by fastforce
qed

text \<open>A number that the phone pattern matched is never empty after normalisation, so a slot is
  absent or non-empty.\<close>

lemma label_line_ok:
  assumes "slot_ok p" "slot_ok w" "slot_ok a" "label_line (p, w, a) ln = (p', w', a')"
  shows "slot_ok p' \<and> slot_ok w' \<and> slot_ok a'"
proof (cases "findall RE_PHONE ln")
  case Nil
  with assms show ?thesis by (simp add: label_line_def)
next
  case (Cons ph phs)
  then have "normalize_phone ph \<noteq> []" using findall_phone_digit[of ph ln] by simp
  with assms Cons show ?thesis
    by (auto simp: label_line_def Let_def slot_ok_def split: if_splits)
qed

lemma foldl_label_line_ok:
  "slot_ok p \<Longrightarrow> slot_ok w \<Longrightarrow> slot_ok a \<Longrightarrow> foldl label_line (p, w, a) lns = (p', w', a') \<Longrightarrow>
   slot_ok p' \<and> slot_ok w' \<and> slot_ok a'"
proof (induction lns arbitrary: p w a)
  case Nil
  then show ?case by simp
next
  case (Cons ln lns)
  obtain p1 w1 a1 where s: "label_line (p, w, a) ln = (p1, w1, a1)" by (cases "label_line (p, w, a) ln")
  from label_line_ok[OF Cons.prems(1-3) s] Cons.IH[of p1 w1 a1] Cons.prems(4) s
  show ?case by simp
qed

lemma first_pass_ok:
  "first_pass lns = (p, w, a) \<Longrightarrow> slot_ok p \<and> slot_ok w \<and> slot_ok a"
  unfolding first_pass_def by (rule foldl_label_line_ok[of None None None]) (simp_all add: slot_ok_def)

lemma remaining_numbers_nonempty:
  "n \<in> set (remaining_numbers s lns) \<Longrightarrow> n \<noteq> []"
  by (cases s) (auto simp: remaining_numbers_def dest: findall_phone_digit)

lemma fill_full:
  "x \<noteq> [] \<Longrightarrow> y \<noteq> [] \<Longrightarrow> z \<noteq> [] \<Longrightarrow> foldl fill_slot (Some x, Some y, Some z) ns = (Some x, Some y, Some z)"
  by (induction ns) (simp_all add: fill_slot_def truthy_def)

text \<open>The last loop of \<open>parse_contact_field\<close>: the empty slots, in order, take the numbers.\<close>

lemma list_shape4:
  obtains "ns = []" | n1 where "ns = [n1]" | n1 n2 where "ns = [n1, n2]"
    | n1 n2 n3 r where "ns = n1 # n2 # n3 # r"
  by (cases ns; cases "tl ns"; cases "tl (tl ns)") auto

lemma parse_contact_field_eq:
  "parse_contact_field text = foldl fill_slot (labelled_slots text) (second_pass_numbers text)"
  by (simp add: parse_contact_field_def Let_def labelled_slots_def second_pass_numbers_def
      contact_lines_def splitlines_def first_pass_def remaining_numbers_def)

lemma fill_result:
  assumes "slot_ok p" "slot_ok w" "slot_ok a" "\<forall>n\<in>set ns. n \<noteq> []"
  shows "map snd (filter (\<lambda>(x, y). x = None) (zip [p, w, a] (slot_list (foldl fill_slot (p, w, a) ns))))
           = map Some (take (length (filter (\<lambda>x. x = None) [p, w, a])) ns)
             @ replicate (length (filter (\<lambda>x. x = None) [p, w, a]) - length ns) None"
    and "\<forall>i<3. [p, w, a] ! i \<noteq> None \<longrightarrow> slot_list (foldl fill_slot (p, w, a) ns) ! i = [p, w, a] ! i"
  using assms
  by (cases p; cases w; cases a; cases ns rule: list_shape4;
      auto simp: fill_slot_def truthy_def slot_ok_def slot_list_def fill_full numeral_3_eq_3 less_Suc_eq)+

text \<open>
  Claim C9, amended to what the code does. A slot that a labelled line filled keeps its
  number; the numbers collected by the second pass are none of the numbers of the first
  pass, and they fill the slots left empty in the order primary, whatsapp, alternate (a slot
  for which no number is left stays empty). Nothing keeps two labelled lines, or two
  unlabelled numbers, from carrying the same number.
\<close>

theorem parse_contact_field_second_pass:
  "(\<forall>n \<in> set (second_pass_numbers text). n \<noteq> [] \<and> Some n \<notin> set (slot_list (labelled_slots text))) \<and>
   (\<forall>i<3. slot_list (labelled_slots text) ! i \<noteq> None \<longrightarrow>
      slot_list (parse_contact_field text) ! i = slot_list (labelled_slots text) ! i) \<and>
   map snd (filter (\<lambda>(x, y). x = None)
              (zip (slot_list (labelled_slots text)) (slot_list (parse_contact_field text))))
     = map Some (take (length (filter (\<lambda>x. x = None) (slot_list (labelled_slots text))))
                   (second_pass_numbers text))
       @ replicate (length (filter (\<lambda>x. x = None) (slot_list (labelled_slots text)))
                     - length (second_pass_numbers text)) None"
proof -
  obtain p w a where s: "labelled_slots text = (p, w, a)" by (cases "labelled_slots text")
  then have ok: "slot_ok p" "slot_ok w" "slot_ok a"
    using first_pass_ok[of "contact_lines text" p w a] by (simp_all add: labelled_slots_def)
  have ne: "\<forall>n \<in> set (second_pass_numbers text). n \<noteq> []"
    by (auto simp: second_pass_numbers_def dest: remaining_numbers_nonempty)
  have "Some n \<notin> set (slot_list (labelled_slots text))" if "n \<in> set (second_pass_numbers text)" for n
  proof -
    from that ne have "n \<noteq> []" by blast
    moreover from that have "Some n \<notin> set (filter truthy [p, w, a])"
      by (simp add: second_pass_numbers_def remaining_numbers_def s)
    ultimately show ?thesis by (auto simp: s slot_list_def truthy_def split: option.splits if_splits)
  qed
  with ne have first: "\<forall>n \<in> set (second_pass_numbers text). n \<noteq> [] \<and> Some n \<notin> set (slot_list (labelled_slots text))"
    by blast
  have sl: "slot_list (p, w, a) = [p, w, a]" by (simp add: slot_list_def)
  show ?thesis
    using first fill_result[OF ok ne] unfolding parse_contact_field_eq s sl by blast
qed

theorem parse_contact_field_second_pass_witness:
  "py ''0831112222'' \<in> set (second_pass_numbers (py ''Kontak: 082 555 1212'' @ [10] @ py ''083 111 2222'')) \<and>
   slot_list (labelled_slots (py ''Kontak: 082 555 1212'' @ [10] @ py ''083 111 2222'')) ! 0 \<noteq> None \<and>
   slot_list (parse_contact_field (py ''Kontak: 082 555 1212'' @ [10] @ py ''083 111 2222'')) ! 0 =
     Some (py ''0825551212'') \<and>
   Some (py ''0831112222'')
     \<notin> set (slot_list (labelled_slots (py ''Kontak: 082 555 1212'' @ [10] @ py ''083 111 2222'')))"
proof -
  let ?T = "py ''Kontak: 082 555 1212'' @ [10] @ py ''083 111 2222''"
  have a: "labelled_slots ?T = (Some (py ''0825551212''), None, None)"
    by (simp add: labelled_slots_def contact_eval rx_eval)
  have b: "second_pass_numbers ?T = [py ''0831112222'']"
    unfolding second_pass_numbers_def a by (simp add: contact_eval rx_eval)
  from parse_contact_field_second_pass[of ?T]
  have "slot_list (labelled_slots ?T) ! 0 \<noteq> None \<longrightarrow>
          slot_list (parse_contact_field ?T) ! 0 = slot_list (labelled_slots ?T) ! 0"
    and "\<forall>n \<in> set (second_pass_numbers ?T). Some n \<notin> set (slot_list (labelled_slots ?T))"
    by simp_all
  then show ?thesis unfolding a b by (simp add: slot_list_def)
qed















section \<open>Results on the Comment Splitter\<close>

lemmas comment_eval =
  split_comments_def collect_tokens_def add_token_def remove_token_def token_rx_def plus_rx_def
  RE_TRAILING_SLASH_def RE_DDMM_def RE_HHMM_def rx_digit_def rx_slash_def py_strip_def Let_def

text \<open>
  Claim C6 (a date written with its year is collected as day/month and the year leaves the
  text). The comments of lines 21 and 176 say that \<open>15/08/2024\<close> gives its first two parts
  and that \<open>15/08/\<close> is normalised to \<open>15/08\<close>. The pattern of line 177 ends in \<open>/\\b\<close>, and a
  word boundary after the slash exists exactly when a word character follows: the second
  slash of \<open>15/08/2024\<close> is deleted and the text becomes \<open>15/082024\<close>, in which \<open>RE_DDMM\<close>
  finds no date and \<open>RE_HHMM\<close> no isolated four digits. No token is collected and the year
  stays in the text. With a two-digit year the digits \<open>0824\<close> are collected as a time.
\<close>

theorem split_comments_date_with_year:
  "split_comments (py ''15/08/2024'') = ([], py ''15/082024'') \<and>
   split_comments (py ''15/08/24'') = (py ''0824'', py ''15/'')"
  by (simp add: comment_eval rx_eval)

text \<open>
  Claim C7 (a second pass over the remaining text finds no token). \<open>RE_HHMM\<close> accepts four
  digits that no digit borders, the removal of line 192 wants a word boundary on both sides:
  in \<open>0930h\<close> the token \<open>0930\<close> is collected and not removed, and the second pass collects
  it again.
\<close>

theorem split_comments_token_not_removed:
  "split_comments (py ''Called 0930h'') = (py ''0930'', py ''Called 0930h'') \<and>
   fst (split_comments (snd (split_comments (py ''Called 0930h'')))) = py ''0930''"
  by (simp add: comment_eval rx_eval)

section \<open>Results on the National Identity Parser\<close>

lemma py_int_digit: "py_isdigit c \<Longrightarrow> py_int [c] = Inr (c - 48)"
  by (simp add: py_int_def py_isdigit_def py_isdecimal_def digit_value_def)

lemma py_int_digits: "s \<noteq> [] \<Longrightarrow> list_all py_isdigit s \<Longrightarrow> \<exists>n. py_int s = Inr n"
  by (auto simp: py_int_def list_all_iff isdigit_isdecimal)

lemma luhn_sa_id_ok_total:
  assumes "length ds = 13" "list_all py_isdigit ds"
  shows "\<exists>ok. luhn_sa_id_ok ds = Inr ok"
proof -
  have d: "py_isdigit (ds ! i)" if "i < 13" for i
    using assms that by (simp add: list_all_length)
  have "\<exists>n. py_int [ds ! 1, ds ! 3, ds ! 5, ds ! 7, ds ! 9, ds ! 11] = Inr n"
    by (rule py_int_digits) (simp_all add: d)
  then obtain n where n: "py_int [ds ! 1, ds ! 3, ds ! 5, ds ! 7, ds ! 9, ds ! 11] = Inr n" ..
  show ?thesis
    using n by (auto simp: luhn_sa_id_ok_def Let_def py_int_digit d assms(1))
qed

lemma digits_of_id: "re_sub_class (\<lambda>c. \<not> py_isdigit c) [] s = filter py_isdigit s"
  by (simp add: re_sub_class_Nil)

lemma parse_sa_id_fields_returns: "\<exists>r. parse_sa_id_fields today id_value = Inr r"
proof (cases "id_value = [] \<or> length (filter py_isdigit id_value) \<noteq> 13")
  case True
  then show ?thesis by (auto simp: parse_sa_id_fields_def digits_of_id Let_def)
next
  case False
  have "list_all py_isdigit (filter py_isdigit id_value)" by (simp add: list_all_iff)
  with False obtain ok where "luhn_sa_id_ok (filter py_isdigit id_value) = Inr ok"
    using luhn_sa_id_ok_total[of "filter py_isdigit id_value"] by blast
  with False show ?thesis
    by (auto simp: parse_sa_id_fields_def digits_of_id Let_def split: option.splits)
qed

text \<open>
  Claim C3. \<open>parse_sa_id_fields\<close> returns for every input and every date of the run (it never
  raises); the empty input gives the reason \<open>empty\<close>; a non-empty input whose digits do not
  number 13 gives the reason \<open>length\<close>; and whenever the result is not valid, the date of
  birth, the age and the gender are empty.
\<close>

theorem parse_sa_id_fields_never_raises:
  "(\<exists>r. parse_sa_id_fields today id_value = Inr r) \<and>
   parse_sa_id_fields today [] = Inr ([], [], [], False, py ''empty'') \<and>
   (id_value \<noteq> [] \<and> length (filter py_isdigit id_value) \<noteq> 13 \<longrightarrow>
      parse_sa_id_fields today id_value = Inr ([], [], [], False, py ''length'')) \<and>
   (\<forall>dob age gender valid reason.
      parse_sa_id_fields today id_value = Inr (dob, age, gender, valid, reason) \<and> \<not> valid \<longrightarrow>
      dob = [] \<and> age = [] \<and> gender = [])"
proof -
  let ?ds = "filter py_isdigit id_value"
  have 1: "\<exists>r. parse_sa_id_fields today id_value = Inr r"
    by (rule parse_sa_id_fields_returns)
  have 2: "parse_sa_id_fields today [] = Inr ([], [], [], False, py ''empty'')"
    by (simp add: parse_sa_id_fields_def)
  have 3: "parse_sa_id_fields today id_value = Inr ([], [], [], False, py ''length'')"
    if "id_value \<noteq> []" "length ?ds \<noteq> 13"
    using that by (simp add: parse_sa_id_fields_def digits_of_id Let_def)
  have 4: "dob = [] \<and> age = [] \<and> gender = []"
    if "parse_sa_id_fields today id_value = Inr (dob, age, gender, valid, reason)" "\<not> valid"
    for dob age gender valid reason
    using that
    by (auto simp: parse_sa_id_fields_def digits_of_id Let_def split: if_splits option.splits sum.splits)
  from 1 2 3 4 show ?thesis by blast
qed

theorem parse_sa_id_fields_never_raises_witness:
  "py ''12345'' \<noteq> [] \<and> length (filter py_isdigit (py ''12345'')) \<noteq> 13 \<and>
   parse_sa_id_fields (2026, 11, 4) (py ''12345'') = Inr ([], [], [], False, py ''length'') \<and>
   \<not> fst (snd (snd (snd ([], [], [], False, py ''length''))))"
  using parse_sa_id_fields_never_raises[of "(2026, 11, 4)" "py ''12345''"]
  by (simp add: py_isdigit_def)

section \<open>Results on the Identifier Assigner\<close>

lemma str_nat_value: "foldl (\<lambda>n c. 10 * n + (c - 48)) 0 (str_nat n) = n"
proof (induction n rule: str_nat.induct)
  case (1 n)
  show ?case
  proof (cases "n < 10")
    case True
    then show ?thesis by (simp add: str_nat.simps[of n])
  next
    case False
    with 1 show ?thesis by (simp add: str_nat.simps[of n])
  qed
qed

lemma str_nat_inj: "str_nat a = str_nat b \<Longrightarrow> a = b"
  by (metis str_nat_value)

lemma str_nat_digits: "list_all py_isdigit (str_nat n)"
proof (induction n rule: str_nat.induct)
  case (1 n)
  show ?case
  proof (cases "n < 10")
    case True
    then show ?thesis by (simp add: str_nat.simps[of n] py_isdigit_def)
  next
    case False
    with 1 show ?thesis by (simp add: str_nat.simps[of n] py_isdigit_def)
  qed
qed

lemma str_nat_nonempty: "str_nat n \<noteq> []"
  by (subst str_nat.simps) simp

lemma str_int_head: "\<exists>y ys. str_int n = y # ys \<and> \<not> is_lower_letter y"
proof (cases "n < 0")
  case True
  then show ?thesis by (simp add: str_int_def is_lower_letter_def)
next
  case False
  obtain y ys where s: "str_nat (nat n) = y # ys" using str_nat_nonempty by (cases "str_nat (nat n)") auto
  with str_nat_digits[of "nat n"] have "py_isdigit y" by simp
  with s False show ?thesis by (simp add: str_int_def is_lower_letter_def py_isdigit_def)
qed

lemma slug_letters_two_lower: "list_all is_lower_letter (slug_letters_two nfkd combining s)"
  by (auto simp: slug_letters_two_def Let_def re_sub_class_Nil list_all_iff is_lower_letter_def
      ascii_lower_def is_ascii_letter_def dest!: in_set_takeD)

lemma takeWhile_letters: "list_all P l \<Longrightarrow> \<not> P y \<Longrightarrow> takeWhile P (l @ y # r) = l"
  by (induction l) simp_all

lemma count_pairs_ge:
  "(b, c) \<in> set (count_pairs counts bs) \<Longrightarrow> (case counts b of None \<Rightarrow> 0 | Some k \<Rightarrow> k) \<le> c"
proof (induction bs arbitrary: counts)
  case Nil
  then show ?case by simp
next
  case (Cons a bs)
  then show ?case by (fastforce simp: Let_def split: if_splits option.splits)
qed

lemma count_pairs_distinct: "distinct (count_pairs counts bs)"
proof (induction bs arbitrary: counts)
  case Nil
  then show ?case by simp
next
  case (Cons a bs)
  then show ?case by (auto simp: Let_def dest!: count_pairs_ge split: option.splits)
qed

lemma count_pairs_lt:
  "(b, c) \<in> set (count_pairs counts bs) \<Longrightarrow> c < (case counts b of None \<Rightarrow> 0 | Some k \<Rightarrow> k) + count_list bs b"
proof (induction bs arbitrary: counts)
  case Nil
  then show ?case by simp
next
  case (Cons a bs)
  then show ?case by (fastforce simp: Let_def split: if_splits option.splits)
qed

lemma count_pairs_fst: "(b, c) \<in> set (count_pairs counts bs) \<Longrightarrow> b \<in> set bs"
  by (induction bs arbitrary: counts) (auto simp: Let_def)

lemma assign_ids_eq:
  "assign_ids nfkd combining year counts idx rows =
     map (\<lambda>(b, c). count_suffix b c) (count_pairs counts (row_bases nfkd combining year idx rows))"
proof (induction rows arbitrary: counts idx)
  case Nil
  then show ?case by (simp add: row_bases_def)
next
  case (Cons r rows)
  obtain name surname where r: "r = (name, surname)" by (cases r)
  show ?case using Cons[of _ "Suc idx"]
    by (simp add: r row_bases_def build_student_id_def Let_def)
qed

lemma count_suffix_eq: "count_suffix b c = b @ id_suffix c"
  by (simp add: count_suffix_def id_suffix_def)

lemma id_suffix_digits: "list_all py_isdigit (id_suffix c)"
  by (simp add: id_suffix_def str_nat_digits)

lemma id_suffix_inj: "id_suffix c = id_suffix c' \<Longrightarrow> c = c'"
  using str_nat_nonempty[of "c + 1"] str_nat_nonempty[of "c' + 1"]
  by (auto simp: id_suffix_def split: if_splits dest: str_nat_inj)

lemma normal_normal:
  assumes "list_all is_lower_letter l1" "list_all is_lower_letter l2"
    and "l1 @ str_int year @ s1 = l2 @ str_int year @ s2"
  shows "l1 = l2 \<and> s1 = s2"
proof -
  obtain y ys where y: "str_int year = y # ys" "\<not> is_lower_letter y" using str_int_head by blast
  have "takeWhile is_lower_letter (l1 @ y # (ys @ s1)) = l1"
    "takeWhile is_lower_letter (l2 @ y # (ys @ s2)) = l2"
    using assms(1,2) y(2) by (simp_all add: takeWhile_letters)
  with assms(3) y(1) have "l1 = l2" by simp
  with assms(3) show ?thesis by simp
qed

lemma normal_fallback:
  assumes "list_all is_lower_letter l" "list_all py_isdigit s"
  shows "l @ str_int year @ s \<noteq> py ''unk'' @ str_int year @ py ''r'' @ d"
proof
  assume eq: "l @ str_int year @ s = py ''unk'' @ str_int year @ py ''r'' @ d"
  have "list_all is_lower_letter (py ''unk'')" by (simp add: is_lower_letter_def)
  from normal_normal[OF assms(1) this eq] have "s = py ''r'' @ d" by simp
  with assms(2) show False by (simp add: py_isdigit_def)
qed

lemma id_base_cases:
  "(\<exists>l. list_all is_lower_letter l \<and> id_base nfkd combining name surname year i = l @ str_int year) \<or>
   id_base nfkd combining name surname year i = py ''unk'' @ str_int year @ py ''r'' @ str_nat (i + 1)"
proof -
  have "list_all is_lower_letter (slug_letters_two nfkd combining name @ slug_letters_two nfkd combining surname)"
    using slug_letters_two_lower by simp
  then show ?thesis by (auto simp: id_base_def Let_def simp del: list_all_append)
qed

lemma id_base_fallback_index:
  assumes "id_base nfkd combining name surname year k = py ''unk'' @ str_int year @ py ''r'' @ str_nat (i + 1)"
  shows "k = i"
proof -
  from id_base_cases[of nfkd combining name surname year k] show ?thesis
  proof
    assume "\<exists>l. list_all is_lower_letter l \<and> id_base nfkd combining name surname year k = l @ str_int year"
    then obtain l where "list_all is_lower_letter l" "l @ str_int year @ [] = py ''unk'' @ str_int year @ py ''r'' @ str_nat (i + 1)"
      using assms by auto
    with normal_fallback[of l "[]" year "str_nat (i + 1)"] show ?thesis by simp
  next
    assume "id_base nfkd combining name surname year k = py ''unk'' @ str_int year @ py ''r'' @ str_nat (k + 1)"
    with assms have "str_nat (k + 1) = str_nat (i + 1)" by simp
    then show ?thesis by (auto dest: str_nat_inj)
  qed
qed

lemma fallback_once:
  "count_list (row_bases nfkd combining year idx rows) (py ''unk'' @ str_int year @ py ''r'' @ str_nat (i + 1))
     \<le> (if idx \<le> i then 1 else 0)"
proof (induction rows arbitrary: idx)
  case Nil
  then show ?case by (simp add: row_bases_def)
next
  case (Cons r rows)
  obtain name surname where r: "r = (name, surname)" by (cases r)
  have step: "row_bases nfkd combining year idx (r # rows) =
      id_base nfkd combining name surname year idx # row_bases nfkd combining year (Suc idx) rows"
    by (simp add: row_bases_def r)
  show ?case
  proof (cases "id_base nfkd combining name surname year idx = py ''unk'' @ str_int year @ py ''r'' @ str_nat (i + 1)")
    case True
    then have "idx = i" by (rule id_base_fallback_index)
    then show ?thesis unfolding step using Cons[of "Suc idx"] True by simp
  next
    case False
    with Cons[of "Suc idx"] show ?thesis by (auto simp: step split: if_splits)
  qed
qed

lemma row_base_cases:
  assumes "b \<in> set (row_bases nfkd combining year idx rows)"
  shows "(\<exists>l. list_all is_lower_letter l \<and> b = l @ str_int year) \<or>
         (\<exists>i. b = py ''unk'' @ str_int year @ py ''r'' @ str_nat (i + 1))"
proof -
  from assms obtain i name surname where "b = id_base nfkd combining name surname year i"
    by (auto simp: row_bases_def)
  with id_base_cases[of nfkd combining name surname year i] show ?thesis by blast
qed

lemma count_suffix_inj:
  assumes p: "(b, c) \<in> set (count_pairs Map.empty (row_bases nfkd combining year idx rows))"
    and q: "(b', c') \<in> set (count_pairs Map.empty (row_bases nfkd combining year idx rows))"
    and eq: "count_suffix b c = count_suffix b' c'"
  shows "b = b' \<and> c = c'"
proof -
  let ?bs = "row_bases nfkd combining year idx rows"
  have fb: "k = 0" if "(x, k) \<in> set (count_pairs Map.empty ?bs)"
    "x = py ''unk'' @ str_int year @ py ''r'' @ str_nat (i + 1)" for x k i
  proof -
    from count_pairs_lt[OF that(1)] have "k < count_list ?bs x" by simp
    also have "\<dots> \<le> 1" unfolding that(2) using fallback_once[of nfkd combining year idx rows i]
      by (simp split: if_splits)
    finally show ?thesis by simp
  qed
  from eq have e: "b @ id_suffix c = b' @ id_suffix c'" by (simp add: count_suffix_eq)
  from row_base_cases[OF count_pairs_fst[OF p]] row_base_cases[OF count_pairs_fst[OF q]]
  consider
    (nn) l l' where "list_all is_lower_letter l" "b = l @ str_int year"
                    "list_all is_lower_letter l'" "b' = l' @ str_int year"
  | (nf) l i where "list_all is_lower_letter l" "b = l @ str_int year"
                   "b' = py ''unk'' @ str_int year @ py ''r'' @ str_nat (i + 1)"
  | (fn) l i where "list_all is_lower_letter l" "b' = l @ str_int year"
                   "b = py ''unk'' @ str_int year @ py ''r'' @ str_nat (i + 1)"
  | (ff) i j where "b = py ''unk'' @ str_int year @ py ''r'' @ str_nat (i + 1)"
                   "b' = py ''unk'' @ str_int year @ py ''r'' @ str_nat (j + 1)"
    by blast
  then show ?thesis
  proof cases
    case nn
    with e have "l @ str_int year @ id_suffix c = l' @ str_int year @ id_suffix c'" by simp
    from normal_normal[OF nn(1) nn(3) this] nn(2,4) show ?thesis by (auto dest: id_suffix_inj)
  next
    case nf
    from fb[OF q nf(3)] have "c' = 0" .
    with e nf have "l @ str_int year @ id_suffix c = py ''unk'' @ str_int year @ py ''r'' @ str_nat (i + 1)"
      by (simp add: id_suffix_def)
    with normal_fallback[OF nf(1) id_suffix_digits[of c], of year "str_nat (i + 1)"] show ?thesis by simp
  next
    case fn
    from fb[OF p fn(3)] have "c = 0" .
    with e fn have "l @ str_int year @ id_suffix c' = py ''unk'' @ str_int year @ py ''r'' @ str_nat (i + 1)"
      by (simp add: id_suffix_def)
    with normal_fallback[OF fn(1) id_suffix_digits[of c'], of year "str_nat (i + 1)"] show ?thesis by simp
  next
    case ff
    from fb[OF p ff(1)] fb[OF q ff(2)] have "c = 0" "c' = 0" .
    with e show ?thesis by (simp add: id_suffix_def)
  qed
qed

text \<open>
  Claim C1. The identifiers of one run (a fixed cohort year, the registry shared by the rows
  and empty at the start, the ordinals counted from 0) are pairwise distinct, one for each
  row in the order of the rows; and a run is a function of its rows and its year, so a second
  run on the same rows with the same year gives the same identifiers in the same order.
\<close>

theorem student_ids_distinct:
  "distinct (student_ids nfkd combining year rows) \<and>
   length (student_ids nfkd combining year rows) = length rows \<and>
   (rows' = rows \<and> year' = year \<longrightarrow>
      student_ids nfkd combining year' rows' = student_ids nfkd combining year rows)"
proof -
  have "inj_on (\<lambda>(b, c). count_suffix b c) (set (count_pairs Map.empty (row_bases nfkd combining year 0 rows)))"
    by (rule inj_onI) (auto dest: count_suffix_inj)
  then have "distinct (student_ids nfkd combining year rows)"
    by (simp add: student_ids_def assign_ids_eq distinct_map count_pairs_distinct)
  moreover have "length (count_pairs counts bs) = length bs" for counts bs
    by (induction bs arbitrary: counts) (simp_all add: Let_def)
  then have "length (student_ids nfkd combining year rows) = length rows"
    by (simp add: student_ids_def assign_ids_eq row_bases_def)
  ultimately show ?thesis by simp
qed

lemmas id_eval =
  student_ids_def build_student_id_def id_base_def slug_letters_two_def count_suffix_def str_int_def
  str_nat.simps re_sub_class_def is_ascii_letter_def ascii_lower_def Let_def

theorem student_ids_distinct_witness:
  "student_ids (\<lambda>s. s) (\<lambda>c. 0) 2024 [(py ''Anna'', py ''Smith''), (py ''Ann'', py ''Smuts''), ([], [])]
     = [py ''ansm2024'', py ''ansm20242'', py ''unk2024r3''] \<and>
   distinct (student_ids (\<lambda>s. s) (\<lambda>c. 0) 2024 [(py ''Anna'', py ''Smith''), (py ''Ann'', py ''Smuts''), ([], [])]) \<and>
   (2024::int) = 2024"
proof -
  have "student_ids (\<lambda>s. s) (\<lambda>c. 0) 2024 [(py ''Anna'', py ''Smith''), (py ''Ann'', py ''Smuts''), ([], [])]
     = [py ''ansm2024'', py ''ansm20242'', py ''unk2024r3'']"
    by (simp add: id_eval)
  then show ?thesis
    using student_ids_distinct[of "\<lambda>s. s" "\<lambda>c. 0" 2024
        "[(py ''Anna'', py ''Smith''), (py ''Ann'', py ''Smuts''), ([], [])]"
        "[(py ''Anna'', py ''Smith''), (py ''Ann'', py ''Smuts''), ([], [])]" 2024]
    by simp
qed

section \<open>Results on the Column Mapper and the Record Builder\<close>

lemma search_digits_digits: "search_digits s = Some m \<Longrightarrow> list_all py_isdecimal m"
  by (auto simp: search_digits_def list_all_iff split: list.splits dest: set_takeWhileD)

lemma search_digits_none: "\<forall>c \<in> set s. \<not> py_isdecimal c \<Longrightarrow> search_digits s = None"
proof -
  assume "\<forall>c \<in> set s. \<not> py_isdecimal c"
  then have "dropWhile (\<lambda>c. \<not> py_isdecimal c) s = []" by (simp add: dropWhile_eq_Nil_conv)
  then show ?thesis unfolding search_digits_def by (simp only: list.case)
qed

lemma str_nat_decimal: "list_all py_isdecimal (str_nat n)"
  using str_nat_digits[of n] by (auto simp: list_all_iff isdigit_isdecimal)

lemma stars_to_number_digits: "list_all py_isdecimal (stars_to_number val)"
  by (auto simp: stars_to_number_def Let_def str_nat_decimal dest: search_digits_digits split: option.splits)

text \<open>
  Claim C10. A cell without a decimal digit and without a black star gives the empty string,
  whatever its text; the result of \<open>stars_to_number\<close> is always a (possibly empty) string of
  decimal digits, and this is what the field \<open>ro\<close> of an output record holds.
\<close>

theorem stars_to_number_digits_or_empty:
  "((\<forall>c \<in> set val. \<not> py_isdecimal c \<and> c \<noteq> 9733) \<longrightarrow> stars_to_number val = []) \<and>
   list_all py_isdecimal (stars_to_number val) \<and>
   (\<exists>ro. field ''ro'' (t3_row headers d student_id id_val) = Some ro \<and> list_all py_isdecimal ro)"
proof -
  have "stars_to_number val = []" if "\<forall>c \<in> set val. \<not> py_isdecimal c \<and> c \<noteq> 9733"
  proof -
    from that have "search_digits val = None" by (simp add: search_digits_none)
    moreover from that have "count_list val 9733 = 0" by (induction val) auto
    ultimately show ?thesis by (simp add: stars_to_number_def)
  qed
  moreover have "field ''ro'' (t3_row headers d student_id id_val) = Some (stars_to_number (dget_key d (py ''ro'')))"
    by (simp add: field_def t3_row_def)
  ultimately show ?thesis using stars_to_number_digits by blast
qed

theorem stars_to_number_digits_or_empty_witness:
  "list_all (\<lambda>c. \<not> py_isdecimal c \<and> c \<noteq> 9733) (py ''very good'') \<and>
   stars_to_number (py ''very good'') = []"
  using stars_to_number_digits_or_empty[of "py ''very good''"]
  by (simp add: py_isdecimal_def)

lemma t1_row_fields:
  "\<exists>r. t1_row today headers super_headers d student_id id_val = Inr r \<and>
       field ''Student_ID'' r = Some student_id \<and> field ''ID_Number'' r = Some id_val"
proof -
  obtain r where "parse_sa_id_fields today id_val = Inr r"
    using parse_sa_id_fields_returns by blast
  then show ?thesis
    by (auto simp: t1_row_def field_def Let_def split: prod.splits)
qed

lemma t2_row_fields:
  "field ''Student_ID'' (t2_row headers super_headers d student_id id_val) = Some student_id \<and>
   field ''ID_Number'' (t2_row headers super_headers d student_id id_val) = Some id_val"
  by (simp add: t2_row_def field_def Let_def)

lemma t3_row_fields:
  "field ''Student_ID'' (t3_row headers d student_id id_val) = Some student_id \<and>
   field ''ID_Number'' (t3_row headers d student_id id_val) = Some id_val"
  by (simp add: t3_row_def field_def Let_def)

lemma main_loop_aligned:
  "\<exists>recs. main_loop nfkd combining today year headers super_headers id_counts idx ds = Inr recs \<and>
     list_all2 (\<lambda>d rec. \<exists>sid.
        field ''Student_ID'' (fst rec) = Some sid \<and>
        field ''Student_ID'' (fst (snd rec)) = Some sid \<and>
        field ''Student_ID'' (snd (snd rec)) = Some sid \<and>
        field ''ID_Number'' (fst rec) = Some (id_value_of headers d) \<and>
        field ''ID_Number'' (fst (snd rec)) = Some (id_value_of headers d) \<and>
        field ''ID_Number'' (snd (snd rec)) = Some (id_value_of headers d)) ds recs"
proof (induction ds arbitrary: id_counts idx)
  case Nil
  show ?case by simp
next
  case (Cons d ds)
  obtain sid counts' where b:
    "build_student_id nfkd combining (dget d (get_col headers (py ''Name'')))
       (dget d (get_col headers (py ''Surname''))) year id_counts idx = (sid, counts')"
    by (cases "build_student_id nfkd combining (dget d (get_col headers (py ''Name'')))
       (dget d (get_col headers (py ''Surname''))) year id_counts idx") auto
  obtain r1 where t1: "t1_row today headers super_headers d sid (id_value_of headers d) = Inr r1"
    and f1: "field ''Student_ID'' r1 = Some sid" "field ''ID_Number'' r1 = Some (id_value_of headers d)"
    using t1_row_fields by blast
  obtain rest where rest:
    "main_loop nfkd combining today year headers super_headers counts' (idx + 1) ds = Inr rest"
    and al: "list_all2 (\<lambda>d rec. \<exists>sid.
        field ''Student_ID'' (fst rec) = Some sid \<and>
        field ''Student_ID'' (fst (snd rec)) = Some sid \<and>
        field ''Student_ID'' (snd (snd rec)) = Some sid \<and>
        field ''ID_Number'' (fst rec) = Some (id_value_of headers d) \<and>
        field ''ID_Number'' (fst (snd rec)) = Some (id_value_of headers d) \<and>
        field ''ID_Number'' (snd (snd rec)) = Some (id_value_of headers d)) ds rest"
    using Cons[of counts' "idx + 1"] by blast
  have eq: "main_loop nfkd combining today year headers super_headers id_counts idx (d # ds) =
              Inr ((r1, t2_row headers super_headers d sid (id_value_of headers d),
                    t3_row headers d sid (id_value_of headers d)) # rest)"
    by (simp only: main_loop.simps Let_def b prod.case t1 rest sum.case)
  show ?case
    unfolding eq using al f1 t2_row_fields t3_row_fields by auto
qed

text \<open>
  Claim C2, on an input without data rows: \<open>main\<close> returns 0 at line 342, before the three
  lists of records exist, and writes no table.
\<close>

theorem main_no_data_rows_no_tables:
  "main (\<lambda>s. s) (\<lambda>c. 0) (2026, 11, 4) 2024
     [[py ''Personal'', py ''Personal''], [py ''Name'', py ''Surname'']] = Inr (0, None)"
  by (simp add: main_def Let_def)

text \<open>
  Claim C2, amended. On an input of two header rows and data rows, \<open>main\<close> returns 0. Without
  data rows it builds no table. With at least one data row it builds three tables, each with
  as many records as there are data rows, and at every position the three records carry the
  same \<open>Student_ID\<close> and the same \<open>ID_Number\<close>.
\<close>

theorem main_tables_aligned:
  "\<exists>tabs. main nfkd combining today year (super_header_raw # header_raw # data) = Inr (0, tabs) \<and>
     (data = [] \<longrightarrow> tabs = None) \<and>
     (data \<noteq> [] \<longrightarrow>
        (\<exists>t1 t2 t3. tabs = Some (t1, t2, t3) \<and>
           length t1 = length data \<and> length t2 = length data \<and> length t3 = length data \<and>
           (\<forall>i < length data. \<exists>sid idv.
              field ''Student_ID'' (t1 ! i) = Some sid \<and>
              field ''Student_ID'' (t2 ! i) = Some sid \<and>
              field ''Student_ID'' (t3 ! i) = Some sid \<and>
              field ''ID_Number'' (t1 ! i) = Some idv \<and>
              field ''ID_Number'' (t2 ! i) = Some idv \<and>
              field ''ID_Number'' (t3 ! i) = Some idv)))"
proof (cases "data = []")
  case True
  then show ?thesis by (simp add: main_def Let_def)
next
  case False
  define cleaned_super where "cleaned_super = map clean_cell super_header_raw"
  define headers where "headers = reconcile_header (clean_header cleaned_super header_raw)"
  define rows where "rows = map (make_row headers) data"
  have rd: "read_csv_with_multiline (super_header_raw # header_raw # data) = Inr (headers, cleaned_super, rows)"
    by (simp add: Let_def cleaned_super_def headers_def rows_def)
  have len: "length rows = length data" and ne: "rows \<noteq> []"
    using False by (simp_all add: rows_def)
  obtain recs where ml: "main_loop nfkd combining today year headers cleaned_super Map.empty 0 rows = Inr recs"
    and al: "list_all2 (\<lambda>d rec. \<exists>sid.
        field ''Student_ID'' (fst rec) = Some sid \<and>
        field ''Student_ID'' (fst (snd rec)) = Some sid \<and>
        field ''Student_ID'' (snd (snd rec)) = Some sid \<and>
        field ''ID_Number'' (fst rec) = Some (id_value_of headers d) \<and>
        field ''ID_Number'' (fst (snd rec)) = Some (id_value_of headers d) \<and>
        field ''ID_Number'' (snd (snd rec)) = Some (id_value_of headers d)) rows recs"
    using main_loop_aligned by blast
  have l: "length recs = length data"
    using al len by (simp add: list_all2_lengthD)
  have m: "main nfkd combining today year (super_header_raw # header_raw # data) =
             Inr (0, Some (map fst recs, map (\<lambda>r. fst (snd r)) recs, map (\<lambda>r. snd (snd r)) recs))"
    unfolding main_def rd using ne ml by simp
  have f: "\<exists>sid idv.
      field ''Student_ID'' (map fst recs ! i) = Some sid \<and>
      field ''Student_ID'' (map (\<lambda>r. fst (snd r)) recs ! i) = Some sid \<and>
      field ''Student_ID'' (map (\<lambda>r. snd (snd r)) recs ! i) = Some sid \<and>
      field ''ID_Number'' (map fst recs ! i) = Some idv \<and>
      field ''ID_Number'' (map (\<lambda>r. fst (snd r)) recs ! i) = Some idv \<and>
      field ''ID_Number'' (map (\<lambda>r. snd (snd r)) recs ! i) = Some idv" if "i < length data" for i
  proof -
    from that have i: "i < length recs" "i < length rows" using l len by simp_all
    from list_all2_nthD2[OF al i(1)] show ?thesis using i(1) by auto
  qed
  show ?thesis
    unfolding m using False l f by simp
qed

theorem main_tables_aligned_witness:
  "[[py ''Ann'', py ''Smith'']] \<noteq> [] \<and>
   (\<exists>t1 t2 t3.
      main (\<lambda>s. s) (\<lambda>c. 0) (2026, 11, 4) 2024
        [[py ''Personal'', py ''Personal''], [py ''Name'', py ''Surname''], [py ''Ann'', py ''Smith'']] =
        Inr (0, Some (t1, t2, t3)) \<and>
      length t1 = 1 \<and> length t2 = 1 \<and> length t3 = 1 \<and>
      (\<exists>sid idv.
         field ''Student_ID'' (t1 ! 0) = Some sid \<and>
         field ''Student_ID'' (t2 ! 0) = Some sid \<and>
         field ''Student_ID'' (t3 ! 0) = Some sid \<and>
         field ''ID_Number'' (t1 ! 0) = Some idv \<and>
         field ''ID_Number'' (t2 ! 0) = Some idv \<and>
         field ''ID_Number'' (t3 ! 0) = Some idv))"
  using main_tables_aligned[of "\<lambda>s. s" "\<lambda>c. 0" "(2026, 11, 4)" 2024
          "[py ''Personal'', py ''Personal'']" "[py ''Name'', py ''Surname'']" "[[py ''Ann'', py ''Smith'']]"]
  by auto

end
